theory Spec2Isabelle
  imports Complex_Main
begin

section \<open>JavaScript values used by the formulas\<close>

text \<open>
  A JavaScript number. Every finite double is a rational, so the finite values are
  modelled as rationals (a superset of the doubles); comparison, \<open>Math.max\<close> and the
  truncation of \<open>slice\<close> agree with the IEEE ones on them. The sign of zero is not modelled.
\<close>

datatype jsnum = NaN | NegInfinity | Finite rat | Infinity

fun isNaN :: "jsnum \<Rightarrow> bool" where
  "isNaN NaN = True"
| "isNaN _ = False"

text \<open>\<open>a < b\<close> on numbers: false whenever an operand is \<open>NaN\<close>.\<close>

fun js_lt :: "jsnum \<Rightarrow> jsnum \<Rightarrow> bool" where
  "js_lt NaN _ = False"
| "js_lt _ NaN = False"
| "js_lt _ NegInfinity = False"
| "js_lt NegInfinity _ = True"
| "js_lt Infinity _ = False"
| "js_lt (Finite a) (Finite b) = (a < b)"
| "js_lt (Finite a) Infinity = True"

text \<open>\<open>a > b\<close> is \<open>b < a\<close>.\<close>

definition js_gt :: "jsnum \<Rightarrow> jsnum \<Rightarrow> bool" where
  "js_gt a b = js_lt b a"

text \<open>\<open>Math.max(a, b)\<close>: \<open>NaN\<close> if either argument is \<open>NaN\<close>, else the larger one.\<close>

fun Math_max :: "jsnum \<Rightarrow> jsnum \<Rightarrow> jsnum" where
  "Math_max NaN _ = NaN"
| "Math_max _ NaN = NaN"
| "Math_max a b = (if js_lt a b then b else a)"

text \<open>
  \<open>a - b\<close> on numbers. The difference of two finite numbers is kept exact: the formulas
  use it as a sort comparator only, and the sign of the rounded difference is that of the
  exact one.
\<close>

fun js_minus :: "jsnum \<Rightarrow> jsnum \<Rightarrow> jsnum" where
  "js_minus NaN _ = NaN"
| "js_minus _ NaN = NaN"
| "js_minus Infinity Infinity = NaN"
| "js_minus NegInfinity NegInfinity = NaN"
| "js_minus Infinity _ = Infinity"
| "js_minus NegInfinity _ = NegInfinity"
| "js_minus _ Infinity = NegInfinity"
| "js_minus _ NegInfinity = Infinity"
| "js_minus (Finite a) (Finite b) = Finite (a - b)"

text \<open>
  What \<open>sort\<close> makes of a number returned by its comparator: negative, zero or positive;
  \<open>NaN\<close> counts as zero.
\<close>

fun js_sign :: "jsnum \<Rightarrow> int" where
  "js_sign NaN = 0"
| "js_sign NegInfinity = - 1"
| "js_sign Infinity = 1"
| "js_sign (Finite q) = (if q < 0 then - 1 else if q = 0 then 0 else 1)"

text \<open>
  \<open>xs.slice(0, end)\<close>: \<open>end\<close> goes through ToIntegerOrInfinity (\<open>NaN\<close> becomes 0, a
  fraction is truncated towards zero), and a negative \<open>end\<close> counts from the end of the array.
\<close>

fun slice0 :: "'a list \<Rightarrow> jsnum \<Rightarrow> 'a list" where
  "slice0 xs NaN = []"
| "slice0 xs NegInfinity = []"
| "slice0 xs Infinity = xs"
| "slice0 xs (Finite q) =
     (let k = (if q < 0 then \<lceil>q\<rceil> else \<lfloor>q\<rfloor>)
      in if k < 0 then take (nat (int (length xs) + k)) xs else take (nat k) xs)"

text \<open>
  \<open>xs.sort(cmp)\<close>: a stable sort by a comparator, \<open>a\<close> before \<open>b\<close> when \<open>cmp(a, b) \<le> 0\<close>.
  For a comparator that is a total preorder every conforming engine returns this list.
\<close>

fun insort_by :: "('a \<Rightarrow> 'a \<Rightarrow> int) \<Rightarrow> 'a \<Rightarrow> 'a list \<Rightarrow> 'a list" where
  "insort_by cmp x [] = [x]"
| "insort_by cmp x (y # ys) = (if cmp x y \<le> 0 then x # y # ys else y # insort_by cmp x ys)"

definition sort_by :: "('a \<Rightarrow> 'a \<Rightarrow> int) \<Rightarrow> 'a list \<Rightarrow> 'a list" where
  "sort_by cmp xs = foldr (insort_by cmp) xs []"

text \<open>A \<open>Date\<close>, as milliseconds since the epoch.\<close>

type_synonym Date = int

section \<open>Promises with a log of the accessor calls\<close>

text \<open>A segment of a raw storage path: a string or a number.\<close>

datatype key = KStr string | KNum jsnum

text \<open>
  The value filters the formulas pass to the timestamp accessors:
  \<open>{ status: { [Op.in]: [...] } }\<close> and \<open>{ status: '...' }\<close>.
\<close>

datatype status_where = StatusIn "string list" | StatusIs string

text \<open>One call of an accessor of the query environment, with the arguments that name the fact.\<close>

datatype access =
    Get string "key list"
  | GetMap string "key list"
  | GetTransformationMatch string string
  | GetTransformationMatches string string
  | GetTransformationMap string string
  | GetDateKeyModified string "key list"
  | GetDateKeyFirstSet string "key list"
  | GetDateKeyFirstSetWithValueMatch string "key list" status_where
  | GetDateFirstTransformed string string "status_where option"

text \<open>
  An awaited computation: the error thrown (\<open>Inl\<close> of the message) or the value, and the
  accessor calls made on the way, in order.
\<close>

type_synonym 'a promise = "(string + 'a) \<times> access list"

definition resolve :: "'a \<Rightarrow> 'a promise" where
  "resolve x = (Inr x, [])"

definition throw :: "string \<Rightarrow> 'a promise" where
  "throw e = (Inl e, [])"

text \<open>An accessor call: logged; it returns its result and never throws.\<close>

definition call :: "access \<Rightarrow> 'a \<Rightarrow> 'a promise" where
  "call a r = (Inr r, [a])"

text \<open>\<open>const x = await m; k x\<close>\<close>

definition await :: "'a promise \<Rightarrow> ('a \<Rightarrow> 'b promise) \<Rightarrow> 'b promise" where
  "await m k =
     (case m of
        (Inl e, t) \<Rightarrow> (Inl e, t)
      | (Inr x, t) \<Rightarrow> (case k x of (r, t') \<Rightarrow> (r, t @ t')))"

text \<open>\<open>(await m1) ?? (await m2)\<close>: the second lookup runs only when the first is absent.\<close>

definition nullish :: "'a option promise \<Rightarrow> 'a option promise \<Rightarrow> 'a option promise" where
  "nullish m1 m2 = await m1 (\<lambda>r. case r of None \<Rightarrow> m2 | Some x \<Rightarrow> resolve (Some x))"

text \<open>
  \<open>Promise.all(ms)\<close>: every sub-evaluation is started, so the log holds the calls of all
  of them, also when one throws. The result is the list of their values in index order,
  or the error of one that throws. Which calls come first in the log and which error wins
  is decided by the scheduler; here the sub-evaluations are logged one after the other in
  index order and the first error in index order is the one reported.
\<close>

fun settle :: "(string + 'a) list \<Rightarrow> string + 'a list" where
  "settle [] = Inr []"
| "settle (Inl e # rs) = Inl e"
| "settle (Inr x # rs) = (case settle rs of Inl e \<Rightarrow> Inl e | Inr xs \<Rightarrow> Inr (x # xs))"

definition Promise_all :: "'a promise list \<Rightarrow> 'a list promise" where
  "Promise_all ms = (settle (map fst ms), concat (map snd ms))"

section \<open>Proposals and the query environment\<close>

text \<open>
  The status of a proposal: the members of \<open>StatusEnum\<close> the formulas name, the object
  \<open>{ veto_timelock: { expiration } }\<close>, and \<open>OtherStatus\<close> for any other stored value
  (the type declaration is not among the sources). \<open>'x\<close> is the type of expirations,
  \<open>'d\<close> of durations.
\<close>

datatype 'x Status =
    Open | Rejected | Passed | Executed | Closed | ExecutionFailed
  | VetoTimelock 'x
  | OtherStatus string

record 'd VetoConfig =
  timelock_duration :: 'd

text \<open>
  A single-choice proposal: the fields the formulas read, and \<open>rest\<close> for all the others
  (votes, threshold, total power, ...), which only the pass and reject conditions look at.
\<close>

record ('x, 'd, 'm) SingleChoiceProposal =
  status :: "'x Status"
  expiration :: 'x
  veto :: "'d VetoConfig option"
  rest :: 'm

record ('x, 'd, 'm) ProposalResponse =
  id' :: jsnum
  proposal :: "('x, 'd, 'm) SingleChoiceProposal"
  createdAt :: "string option"
  completedAt :: "string option"
  executedAt :: "string option"
  closedAt :: "string option"

text \<open>
  A cast vote. \<open>vote\<close> is optional because the raw fallback of the vote listing fills it
  with \<open>ballots[voter]\<close>, a property read.
\<close>

record 'b VoteCast =
  voter :: string
  vote :: "'b option"
  votedAt :: "string option"

text \<open>\<open>VoteInfo\<close>: \<open>{ voter, ...vote, votedAt }\<close>; the ballot's fields are kept together.\<close>

record 'b VoteInfo =
  vi_voter :: string
  vi_vote :: "'b option"
  vi_votedAt :: "string option"

text \<open>
  The query environment: the block it is evaluated at and its accessors, each a function
  of the contract address and the path or name. A generic accessor has one field per
  result type it is used at (\<open>get<SingleChoiceProposal>\<close>, \<open>get<Ballot>\<close>, ...). A
  transformation match is given by its \<open>value\<close>; a map is the object returned, as the
  list of its entries: the keys of an object are strings, also when the map is keyed by
  number.
\<close>

record ('x, 'd, 'm, 'b) ContractEnv =
  contractAddress :: string
  block_height :: int
  block_timeUnixMs :: int
  get_proposal :: "string \<Rightarrow> key list \<Rightarrow> ('x, 'd, 'm) SingleChoiceProposal option"
  get_ballot :: "string \<Rightarrow> key list \<Rightarrow> 'b option"
  getMap_proposals :: "string \<Rightarrow> key list \<Rightarrow> (string \<times> ('x, 'd, 'm) SingleChoiceProposal) list option"
  getMap_ballots :: "string \<Rightarrow> key list \<Rightarrow> (string \<times> 'b) list option"
  getTransformationMatch_proposal :: "string \<Rightarrow> string \<Rightarrow> ('x, 'd, 'm) SingleChoiceProposal option"
  getTransformationMatch_voteCast :: "string \<Rightarrow> string \<Rightarrow> 'b VoteCast option"
  getTransformationMatches_voteCast ::
    "string \<Rightarrow> string \<Rightarrow> string option \<Rightarrow> jsnum option \<Rightarrow> 'b VoteCast list option"
  getTransformationMap_proposals ::
    "string \<Rightarrow> string \<Rightarrow> (string \<times> ('x, 'd, 'm) SingleChoiceProposal) list option"
  getDateKeyModified :: "string \<Rightarrow> key list \<Rightarrow> Date option"
  getDateKeyFirstSet :: "string \<Rightarrow> key list \<Rightarrow> Date option"
  getDateKeyFirstSetWithValueMatch :: "string \<Rightarrow> key list \<Rightarrow> status_where \<Rightarrow> Date option"
  getDateFirstTransformed :: "string \<Rightarrow> string \<Rightarrow> status_where option \<Rightarrow> Date option"

text \<open>
  What the formulas import and the sources do not hold: the pass and reject conditions
  (\<open>./status\<close>), the expiration helpers (\<open>../../../utils\<close>), and the built-ins
  \<open>Number\<close>, \<open>Number.prototype.toString\<close>, \<open>String.prototype.localeCompare\<close> and
  \<open>Date.prototype.toISOString\<close>. They are parameters of every formula.
\<close>

record ('x, 'd, 'm, 'b) Imports =
  isPassed :: "('x, 'd, 'm, 'b) ContractEnv \<Rightarrow> ('x, 'd, 'm) SingleChoiceProposal \<Rightarrow> bool"
  isRejected :: "('x, 'd, 'm, 'b) ContractEnv \<Rightarrow> ('x, 'd, 'm) SingleChoiceProposal \<Rightarrow> bool"
  expirationPlusDuration :: "'x \<Rightarrow> 'd \<Rightarrow> 'x"
  isExpirationExpired :: "('x, 'd, 'm, 'b) ContractEnv \<Rightarrow> 'x \<Rightarrow> bool"
  Number :: "string \<Rightarrow> jsnum"
  toString :: "jsnum \<Rightarrow> string"
  localeCompare :: "string \<Rightarrow> string \<Rightarrow> int"
  toISOString :: "Date \<Rightarrow> string"

section \<open>The formulas of daoProposalSingle\<close>

text \<open>\<open>!id || isNaN(Number(id)) || Number(id) < 0\<close>, for an optional string argument.\<close>

definition invalid_id :: "('x, 'd, 'm, 'b) Imports \<Rightarrow> string option \<Rightarrow> bool" where
  "invalid_id imp arg =
     (case arg of
        None \<Rightarrow> True
      | Some s \<Rightarrow> s = [] \<or> isNaN (Number imp s) \<or> js_lt (Number imp s) (Finite 0))"

text \<open>\<open>proposalCreatedAt.compute\<close>\<close>

definition proposalCreatedAt_compute ::
  "('x, 'd, 'm, 'b) Imports \<Rightarrow> ('x, 'd, 'm, 'b) ContractEnv \<Rightarrow> string option \<Rightarrow> string option promise"
where
  "proposalCreatedAt_compute imp env id_arg =
     (if invalid_id imp id_arg then throw ''missing `id`''
      else case id_arg of
        None \<Rightarrow> throw ''missing `id`''
      | Some idS \<Rightarrow>
          await
            (nullish
               (call (GetDateFirstTransformed (contractAddress env) (''proposal:'' @ idS) None)
                  (getDateFirstTransformed env (contractAddress env) (''proposal:'' @ idS) None))
               (nullish
                  (call (GetDateKeyFirstSet (contractAddress env) [KStr ''proposals_v2'', KNum (Number imp idS)])
                     (getDateKeyFirstSet env (contractAddress env) [KStr ''proposals_v2'', KNum (Number imp idS)]))
                  (call (GetDateKeyFirstSet (contractAddress env) [KStr ''proposals'', KNum (Number imp idS)])
                     (getDateKeyFirstSet env (contractAddress env) [KStr ''proposals'', KNum (Number imp idS)]))))
            (\<lambda>d. resolve (map_option (toISOString imp) d)))"

text \<open>
  The status update at the head of \<open>intoResponse\<close>. The source assigns
  \<open>proposal.status\<close> in place; here the updated proposal is returned.
\<close>

definition updateStatus ::
  "('x, 'd, 'm, 'b) Imports \<Rightarrow> ('x, 'd, 'm, 'b) ContractEnv \<Rightarrow>
   ('x, 'd, 'm) SingleChoiceProposal \<Rightarrow> ('x, 'd, 'm) SingleChoiceProposal"
where
  "updateStatus imp env p =
     (if status p = Open then
        (if isPassed imp env p then
           (case veto p of
              Some v \<Rightarrow>
                (let expiration' = expirationPlusDuration imp (expiration p) (timelock_duration v)
                 in if isExpirationExpired imp env expiration'
                    then p\<lparr>status := Passed\<rparr>
                    else p\<lparr>status := VetoTimelock expiration'\<rparr>)
            | None \<Rightarrow> p\<lparr>status := Passed\<rparr>)
         else if isExpirationExpired imp env (expiration p) \<or> isRejected imp env p
         then p\<lparr>status := Rejected\<rparr>
         else p)
      else
        (case status p of
           VetoTimelock e \<Rightarrow> (if isExpirationExpired imp env e then p\<lparr>status := Passed\<rparr> else p)
         | _ \<Rightarrow> p))"

text \<open>The raw path of a proposal in the schema that matched: \<open>[v2 ? 'proposals_v2' : 'proposals', id]\<close>.\<close>

definition rawPath :: "bool \<Rightarrow> jsnum \<Rightarrow> key list" where
  "rawPath v2 i = [KStr (if v2 then ''proposals_v2'' else ''proposals''), KNum i]"

text \<open>
  The timestamp lookup \<open>intoResponse\<close> makes three times: the first transformation of
  \<open>proposal:<id>\<close> matching the filter, else the first raw write of the matched schema
  matching it; then \<open>?.toISOString()\<close>.
\<close>

definition statusDate ::
  "('x, 'd, 'm, 'b) Imports \<Rightarrow> ('x, 'd, 'm, 'b) ContractEnv \<Rightarrow> jsnum \<Rightarrow> bool \<Rightarrow> status_where \<Rightarrow>
   string option promise"
where
  "statusDate imp env i v2 w =
     await
       (nullish
          (call (GetDateFirstTransformed (contractAddress env) (''proposal:'' @ toString imp i) (Some w))
             (getDateFirstTransformed env (contractAddress env) (''proposal:'' @ toString imp i) (Some w)))
          (call (GetDateKeyFirstSetWithValueMatch (contractAddress env) (rawPath v2 i) w)
             (getDateKeyFirstSetWithValueMatch env (contractAddress env) (rawPath v2 i) w)))
       (\<lambda>d. resolve (map_option (toISOString imp) d))"

text \<open>An optional string is truthy when it is present and not empty.\<close>

definition js_truthy :: "string option \<Rightarrow> bool" where
  "js_truthy a = (case a of None \<Rightarrow> False | Some s \<Rightarrow> s \<noteq> [])"

text \<open>\<open>a || b\<close> on optional strings: \<open>a\<close> when it is truthy, else \<open>b\<close>.\<close>

definition js_or :: "string option \<Rightarrow> string option \<Rightarrow> string option" where
  "js_or a b = (if js_truthy a then a else b)"

text \<open>\<open>intoResponse\<close>\<close>

definition intoResponse ::
  "('x, 'd, 'm, 'b) Imports \<Rightarrow> ('x, 'd, 'm, 'b) ContractEnv \<Rightarrow>
   ('x, 'd, 'm) SingleChoiceProposal \<Rightarrow> jsnum \<Rightarrow> bool \<Rightarrow> ('x, 'd, 'm) ProposalResponse promise"
where
  "intoResponse imp env proposal0 i v2 =
     (let p = updateStatus imp env proposal0 in
      await (proposalCreatedAt_compute imp env (Some (toString imp i))) (\<lambda>created.
      await (if status p = Executed \<or> status p = ExecutionFailed
             then statusDate imp env i v2 (StatusIn [''executed'', ''execution_failed''])
             else resolve None) (\<lambda>executed.
      await (if status p = Closed
             then statusDate imp env i v2 (StatusIs ''closed'')
             else resolve None) (\<lambda>closed'.
      await (if status p \<noteq> Open
             then (if js_truthy (js_or executed closed')
                   then resolve (js_or executed closed')
                   else statusDate imp env i v2 (StatusIn [''passed'', ''rejected'']))
             else resolve None) (\<lambda>completed.
      resolve \<lparr>id' = i, proposal = p, createdAt = created, completedAt = completed,
               executedAt = executed, closedAt = closed'\<rparr>)))))"

text \<open>
  The lookup at the head of \<open>proposal.compute\<close>: the transformation \<open>proposal:<id>\<close>, else
  the raw key \<open>proposals_v2\<close>, else the raw key \<open>proposals\<close>. It yields the proposal found
  and the flag \<open>v2\<close>.
\<close>

definition resolveProposal ::
  "('x, 'd, 'm, 'b) Imports \<Rightarrow> ('x, 'd, 'm, 'b) ContractEnv \<Rightarrow> string \<Rightarrow>
   (('x, 'd, 'm) SingleChoiceProposal option \<times> bool) promise"
where
  "resolveProposal imp env idS =
     await (call (GetTransformationMatch (contractAddress env) (''proposal:'' @ idS))
              (getTransformationMatch_proposal env (contractAddress env) (''proposal:'' @ idS)))
       (\<lambda>found.
          case found of
            Some p \<Rightarrow> resolve (Some p, False)
          | None \<Rightarrow>
              await (call (Get (contractAddress env) [KStr ''proposals_v2'', KNum (Number imp idS)])
                       (get_proposal env (contractAddress env) [KStr ''proposals_v2'', KNum (Number imp idS)]))
                (\<lambda>proposalV2.
                   case proposalV2 of
                     Some p \<Rightarrow> resolve (Some p, True)
                   | None \<Rightarrow>
                       await (call (Get (contractAddress env) [KStr ''proposals'', KNum (Number imp idS)])
                                (get_proposal env (contractAddress env) [KStr ''proposals'', KNum (Number imp idS)]))
                         (\<lambda>proposalV1. resolve (proposalV1, False))))"

text \<open>\<open>proposal.compute\<close>\<close>

definition proposal_compute ::
  "('x, 'd, 'm, 'b) Imports \<Rightarrow> ('x, 'd, 'm, 'b) ContractEnv \<Rightarrow> string option \<Rightarrow>
   ('x, 'd, 'm) ProposalResponse option promise"
where
  "proposal_compute imp env id_arg =
     (if invalid_id imp id_arg then throw ''missing `id`''
      else case id_arg of
        None \<Rightarrow> throw ''missing `id`''
      | Some idS \<Rightarrow>
          await (resolveProposal imp env idS) (\<lambda>(found, v2).
            case found of
              None \<Rightarrow> resolve None
            | Some p \<Rightarrow> await (intoResponse imp env p (Number imp idS) v2) (\<lambda>r. resolve (Some r))))"

text \<open>\<open>limit ? Math.max(0, Number(limit)) : Infinity\<close>; an empty string is falsy.\<close>

definition limitNum :: "('x, 'd, 'm, 'b) Imports \<Rightarrow> string option \<Rightarrow> jsnum" where
  "limitNum imp limit =
     (case limit of
        None \<Rightarrow> Infinity
      | Some l \<Rightarrow> if l = [] then Infinity else Math_max (Finite 0) (Number imp l))"

text \<open>\<open>startAfter ? Math.max(0, Number(startAfter)) : -Infinity\<close>\<close>

definition startAfterNum :: "('x, 'd, 'm, 'b) Imports \<Rightarrow> string option \<Rightarrow> jsnum" where
  "startAfterNum imp startAfter =
     (case startAfter of
        None \<Rightarrow> NegInfinity
      | Some s \<Rightarrow> if s = [] then NegInfinity else Math_max (Finite 0) (Number imp s))"

text \<open>\<open>startBefore ? Math.max(0, Number(startBefore)) : Infinity\<close>\<close>

definition startBeforeNum :: "('x, 'd, 'm, 'b) Imports \<Rightarrow> string option \<Rightarrow> jsnum" where
  "startBeforeNum imp startBefore =
     (case startBefore of
        None \<Rightarrow> Infinity
      | Some s \<Rightarrow> if s = [] then Infinity else Math_max (Finite 0) (Number imp s))"

text \<open>
  The lookup at the head of \<open>listProposals.compute\<close> and of \<open>reverseProposals.compute\<close>
  (the same lines in both): the transformation map \<open>proposal\<close>, else the raw map
  \<open>proposals_v2\<close>, else the raw map \<open>proposals\<close>. An empty object is truthy, so a source
  that answers with an empty map wins.
\<close>

definition resolveProposals ::
  "('x, 'd, 'm, 'b) ContractEnv \<Rightarrow>
   ((string \<times> ('x, 'd, 'm) SingleChoiceProposal) list option \<times> bool) promise"
where
  "resolveProposals env =
     await (call (GetTransformationMap (contractAddress env) ''proposal'')
              (getTransformationMap_proposals env (contractAddress env) ''proposal''))
       (\<lambda>found.
          case found of
            Some ps \<Rightarrow> resolve (Some ps, False)
          | None \<Rightarrow>
              await (call (GetMap (contractAddress env) [KStr ''proposals_v2''])
                       (getMap_proposals env (contractAddress env) [KStr ''proposals_v2'']))
                (\<lambda>proposalsV2.
                   case proposalsV2 of
                     Some ps \<Rightarrow> resolve (Some ps, True)
                   | None \<Rightarrow>
                       await (call (GetMap (contractAddress env) [KStr ''proposals''])
                                (getMap_proposals env (contractAddress env) [KStr ''proposals'']))
                         (\<lambda>proposalsV1. resolve (proposalsV1, False))))"

text \<open>
  \<open>Object.keys(proposals).map(Number).sort((a, b) => a - b).filter((id) => id > startAfterNum)
  .slice(0, limitNum)\<close>: the ids are the numbers that \<open>Number\<close> reads from the keys.
\<close>

definition proposalIds_asc ::
  "('x, 'd, 'm, 'b) Imports \<Rightarrow> (string \<times> 'p) list \<Rightarrow> string option \<Rightarrow> string option \<Rightarrow> jsnum list"
where
  "proposalIds_asc imp ps limit startAfter =
     slice0
       (filter (\<lambda>i. js_gt i (startAfterNum imp startAfter))
          (sort_by (\<lambda>a b. js_sign (js_minus a b)) (map (Number imp) (map fst ps))))
       (limitNum imp limit)"

text \<open>
  \<open>Object.keys(proposals).map(Number).sort((a, b) => b - a).filter((id) => id < startBeforeNum)
  .slice(0, limitNum)\<close>
\<close>

definition proposalIds_desc ::
  "('x, 'd, 'm, 'b) Imports \<Rightarrow> (string \<times> 'p) list \<Rightarrow> string option \<Rightarrow> string option \<Rightarrow> jsnum list"
where
  "proposalIds_desc imp ps limit startBefore =
     slice0
       (filter (\<lambda>i. js_lt i (startBeforeNum imp startBefore))
          (sort_by (\<lambda>a b. js_sign (js_minus b a)) (map (Number imp) (map fst ps))))
       (limitNum imp limit)"

text \<open>
  \<open>proposalIds.map((id) => intoResponse(env, proposals![id], id, { v2 }))\<close> under
  \<open>Promise.all\<close>. \<open>proposals[id]\<close> reads the property named by the string of the number
  \<open>id\<close>; when there is none (a key that \<open>Number\<close> rounded, or that is not the string of
  its number), \<open>intoResponse\<close> reads \<open>.status\<close> of \<open>undefined\<close>, a \<open>TypeError\<close>.
\<close>

definition intoResponses ::
  "('x, 'd, 'm, 'b) Imports \<Rightarrow> ('x, 'd, 'm, 'b) ContractEnv \<Rightarrow>
   (string \<times> ('x, 'd, 'm) SingleChoiceProposal) list \<Rightarrow> bool \<Rightarrow> jsnum list \<Rightarrow>
   ('x, 'd, 'm) ProposalResponse list promise"
where
  "intoResponses imp env ps v2 ids =
     Promise_all
       (map (\<lambda>i. case map_of ps (toString imp i) of
                    Some p \<Rightarrow> intoResponse imp env p i v2
                  | None \<Rightarrow> throw ''TypeError'')
          ids)"

text \<open>The status test of the \<open>passed\<close> filter of \<open>listProposals\<close>.\<close>

definition passedFilter :: "('x, 'd, 'm) ProposalResponse \<Rightarrow> bool" where
  "passedFilter r =
     (status (proposal r) = Passed \<or> status (proposal r) = Executed \<or>
      status (proposal r) = ExecutionFailed)"

text \<open>\<open>listProposals.compute\<close>, with the arguments \<open>limit\<close>, \<open>startAfter\<close> and \<open>filter\<close>.\<close>

definition listProposals_compute ::
  "('x, 'd, 'm, 'b) Imports \<Rightarrow> ('x, 'd, 'm, 'b) ContractEnv \<Rightarrow>
   string option \<Rightarrow> string option \<Rightarrow> string option \<Rightarrow> ('x, 'd, 'm) ProposalResponse list promise"
where
  "listProposals_compute imp env limit startAfter filter_arg =
     await (resolveProposals env) (\<lambda>(found, v2).
       case found of
         None \<Rightarrow> resolve []
       | Some ps \<Rightarrow>
           await (intoResponses imp env ps v2 (proposalIds_asc imp ps limit startAfter))
             (\<lambda>responses.
                resolve (filter (\<lambda>r. if filter_arg = Some ''passed'' then passedFilter r else True)
                           responses)))"

text \<open>\<open>reverseProposals.compute\<close>, with the arguments \<open>limit\<close> and \<open>startBefore\<close>.\<close>

definition reverseProposals_compute ::
  "('x, 'd, 'm, 'b) Imports \<Rightarrow> ('x, 'd, 'm, 'b) ContractEnv \<Rightarrow>
   string option \<Rightarrow> string option \<Rightarrow> ('x, 'd, 'm) ProposalResponse list promise"
where
  "reverseProposals_compute imp env limit startBefore =
     await (resolveProposals env) (\<lambda>(found, v2).
       case found of
         None \<Rightarrow> resolve []
       | Some ps \<Rightarrow> intoResponses imp env ps v2 (proposalIds_desc imp ps limit startBefore))"

text \<open>\<open>vote.compute\<close>, with the arguments \<open>proposalId\<close> and \<open>voter\<close>.\<close>

definition vote_compute ::
  "('x, 'd, 'm, 'b) Imports \<Rightarrow> ('x, 'd, 'm, 'b) ContractEnv \<Rightarrow>
   string option \<Rightarrow> string option \<Rightarrow> 'b VoteInfo option promise"
where
  "vote_compute imp env proposalId_arg voter_arg =
     (case proposalId_arg of
        None \<Rightarrow> throw ''missing `proposalId`''
      | Some proposalId \<Rightarrow>
          if proposalId = [] then throw ''missing `proposalId`''
          else (case voter_arg of
            None \<Rightarrow> throw ''missing `voter`''
          | Some voterS \<Rightarrow>
              if voterS = [] then throw ''missing `voter`''
              else
                await (call (GetTransformationMatch (contractAddress env)
                               (''voteCast:'' @ voterS @ '':'' @ proposalId))
                         (getTransformationMatch_voteCast env (contractAddress env)
                            (''voteCast:'' @ voterS @ '':'' @ proposalId)))
                  (\<lambda>found.
                     await
                       (case found of
                          Some vc \<Rightarrow> resolve (Some vc)
                        | None \<Rightarrow>
                            await (call (Get (contractAddress env)
                                           [KStr ''ballots'', KNum (Number imp proposalId), KStr voterS])
                                     (get_ballot env (contractAddress env)
                                        [KStr ''ballots'', KNum (Number imp proposalId), KStr voterS]))
                              (\<lambda>ballot.
                                 case ballot of
                                   None \<Rightarrow> resolve None
                                 | Some b \<Rightarrow>
                                     await (call (GetDateKeyModified (contractAddress env)
                                                    [KStr ''ballots'', KNum (Number imp proposalId), KStr voterS])
                                              (getDateKeyModified env (contractAddress env)
                                                 [KStr ''ballots'', KNum (Number imp proposalId), KStr voterS]))
                                       (\<lambda>d. resolve (Some \<lparr>voter = voterS, vote = Some b,
                                                            votedAt = map_option (toISOString imp) d\<rparr>))))
                       (\<lambda>voteCast.
                          resolve (map_option
                                     (\<lambda>vc. \<lparr>vi_voter = voterS, vi_vote = vote vc, vi_votedAt = votedAt vc\<rparr>)
                                     voteCast)))))"

text \<open>
  The page of voters of the raw fallback of \<open>listVotes\<close>:
  \<open>Object.keys(ballots).sort((a, b) => a.localeCompare(b))
  .filter((voter) => !startAfter || voter.localeCompare(startAfter) > 0).slice(0, limitNum)\<close>
\<close>

definition votersPage ::
  "('x, 'd, 'm, 'b) Imports \<Rightarrow> (string \<times> 'b) list \<Rightarrow> string option \<Rightarrow> string option \<Rightarrow> string list"
where
  "votersPage imp ballots limit startAfter =
     slice0
       (filter (\<lambda>v. case startAfter of
                       None \<Rightarrow> True
                     | Some s \<Rightarrow> s = [] \<or> localeCompare imp v s > 0)
          (sort_by (localeCompare imp) (map fst ballots)))
       (limitNum imp limit)"

text \<open>
  The raw fallback of \<open>listVotes\<close>: the ballots of the proposal (\<open>?? {}\<close> when there are
  none), the page of voters, the dates only when the page has at most 50 voters, and the
  votes built from them (\<open>votesCastAt?.[index]?.toISOString()\<close>).
\<close>

definition votesFromBallots ::
  "('x, 'd, 'm, 'b) Imports \<Rightarrow> ('x, 'd, 'm, 'b) ContractEnv \<Rightarrow>
   string \<Rightarrow> string option \<Rightarrow> string option \<Rightarrow> 'b VoteCast list promise"
where
  "votesFromBallots imp env proposalId limit startAfter =
     await (call (GetMap (contractAddress env) [KStr ''ballots'', KNum (Number imp proposalId)])
              (getMap_ballots env (contractAddress env) [KStr ''ballots'', KNum (Number imp proposalId)]))
       (\<lambda>found.
          let ballots = (case found of None \<Rightarrow> [] | Some bs \<Rightarrow> bs);
              voters = votersPage imp ballots limit startAfter
          in
            await (if length voters \<le> 50
                   then await (Promise_all
                                 (map (\<lambda>v. call (GetDateKeyModified (contractAddress env)
                                                    [KStr ''ballots'', KNum (Number imp proposalId), KStr v])
                                              (getDateKeyModified env (contractAddress env)
                                                 [KStr ''ballots'', KNum (Number imp proposalId), KStr v]))
                                    voters))
                          (\<lambda>ds. resolve (Some ds))
                   else resolve None)
              (\<lambda>votesCastAt.
                 resolve
                   (map (\<lambda>(v, index).
                           \<lparr>voter = v, vote = map_of ballots v,
                            votedAt = (case votesCastAt of
                                         None \<Rightarrow> None
                                       | Some ds \<Rightarrow>
                                           if index < length ds
                                           then map_option (toISOString imp) (ds ! index)
                                           else None)\<rparr>)
                      (zip voters [0 ..< length voters]))))"

text \<open>\<open>listVotes.compute\<close>, with the arguments \<open>proposalId\<close>, \<open>limit\<close> and \<open>startAfter\<close>.\<close>

definition listVotes_compute ::
  "('x, 'd, 'm, 'b) Imports \<Rightarrow> ('x, 'd, 'm, 'b) ContractEnv \<Rightarrow>
   string option \<Rightarrow> string option \<Rightarrow> string option \<Rightarrow> 'b VoteInfo list promise"
where
  "listVotes_compute imp env proposalId_arg limit startAfter =
     (if invalid_id imp proposalId_arg then throw ''missing `proposalId`''
      else case proposalId_arg of
        None \<Rightarrow> throw ''missing `proposalId`''
      | Some proposalId \<Rightarrow>
          await (call (GetTransformationMatches (contractAddress env) (''voteCast:*:'' @ proposalId))
                   (getTransformationMatches_voteCast env (contractAddress env)
                      (''voteCast:*:'' @ proposalId)
                      (case startAfter of
                         None \<Rightarrow> None
                       | Some s \<Rightarrow> if s = [] then None
                                   else Some (''voteCast:'' @ s @ '':'' @ proposalId))
                      (case limit of
                         None \<Rightarrow> None
                       | Some l \<Rightarrow> if l = [] then None else Some (limitNum imp limit))))
            (\<lambda>found.
               await (case found of
                        Some vcs \<Rightarrow> resolve vcs
                      | None \<Rightarrow> votesFromBallots imp env proposalId limit startAfter)
                 (\<lambda>votesCast.
                    resolve (map (\<lambda>vc. \<lparr>vi_voter = voter vc, vi_vote = vote vc, vi_votedAt = votedAt vc\<rparr>)
                               votesCast))))"

text \<open>
  In the words of the specification: the timestamp of the earliest fact of proposal \<open>i\<close>
  whose status matches \<open>w\<close>, the transformation preferred over the raw schema that matched.
\<close>

definition firstStatusFact ::
  "('x, 'd, 'm, 'b) Imports \<Rightarrow> ('x, 'd, 'm, 'b) ContractEnv \<Rightarrow> jsnum \<Rightarrow> bool \<Rightarrow> status_where \<Rightarrow>
   string option"
where
  "firstStatusFact imp env i v2 w =
     map_option (toISOString imp)
       (case getDateFirstTransformed env (contractAddress env) (''proposal:'' @ toString imp i) (Some w) of
          Some d \<Rightarrow> Some d
        | None \<Rightarrow> getDateKeyFirstSetWithValueMatch env (contractAddress env) (rawPath v2 i) w)"

text \<open>
  In the words of the specification: the accessor calls of that timestamp lookup, the
  transformation first, and the raw lookup at \<open>[schema, id]\<close> of the schema that matched
  only when the transformation has no such fact.
\<close>

definition statusDateLog ::
  "('x, 'd, 'm, 'b) Imports \<Rightarrow> ('x, 'd, 'm, 'b) ContractEnv \<Rightarrow> jsnum \<Rightarrow> bool \<Rightarrow> status_where \<Rightarrow>
   access list"
where
  "statusDateLog imp env i v2 w =
     GetDateFirstTransformed (contractAddress env) (''proposal:'' @ toString imp i) (Some w) #
     (if getDateFirstTransformed env (contractAddress env) (''proposal:'' @ toString imp i) (Some w) = None
      then [GetDateKeyFirstSetWithValueMatch (contractAddress env)
              [KStr (if v2 then ''proposals_v2'' else ''proposals''), KNum i] w]
      else [])"

text \<open>
  The timestamps of a response are taken from the schema \<open>v2\<close> selects: \<open>executedAt\<close> when
  the status is executed or execution failed, \<open>closedAt\<close> when it is closed,
  \<open>completedAt\<close> when it is not open (\<open>executedAt || closedAt ||\<close> the first pass or
  rejection), each absent otherwise.
\<close>

definition timestampsOn ::
  "('x, 'd, 'm, 'b) Imports \<Rightarrow> ('x, 'd, 'm, 'b) ContractEnv \<Rightarrow> bool \<Rightarrow>
   ('x, 'd, 'm) ProposalResponse \<Rightarrow> bool"
where
  "timestampsOn imp env v2 r =
     (executedAt r =
        (if status (proposal r) = Executed \<or> status (proposal r) = ExecutionFailed
         then firstStatusFact imp env (id' r) v2 (StatusIn [''executed'', ''execution_failed''])
         else None) \<and>
      closedAt r =
        (if status (proposal r) = Closed
         then firstStatusFact imp env (id' r) v2 (StatusIs ''closed'')
         else None) \<and>
      completedAt r =
        (if status (proposal r) = Open then None
         else if js_truthy (js_or (executedAt r) (closedAt r))
         then js_or (executedAt r) (closedAt r)
         else firstStatusFact imp env (id' r) v2 (StatusIn [''passed'', ''rejected''])))"

text \<open>The accessor calls that fetch those timestamps, in the order of the lookups.\<close>

definition timestampLog ::
  "('x, 'd, 'm, 'b) Imports \<Rightarrow> ('x, 'd, 'm, 'b) ContractEnv \<Rightarrow> bool \<Rightarrow>
   ('x, 'd, 'm) ProposalResponse \<Rightarrow> access list"
where
  "timestampLog imp env v2 r =
     (if status (proposal r) = Executed \<or> status (proposal r) = ExecutionFailed
      then statusDateLog imp env (id' r) v2 (StatusIn [''executed'', ''execution_failed''])
      else []) @
     (if status (proposal r) = Closed
      then statusDateLog imp env (id' r) v2 (StatusIs ''closed'')
      else []) @
     (if status (proposal r) = Open \<or> js_truthy (js_or (executedAt r) (closedAt r))
      then []
      else statusDateLog imp env (id' r) v2 (StatusIn [''passed'', ''rejected'']))"

text \<open>
  In the words of the specification, for stored ids \<open>is\<close>, a cursor \<open>c\<close> and a limit \<open>n\<close>
  (each absent or given): the ids strictly greater than the cursor in ascending order, and
  the ids strictly less than the cursor in descending order, cut to the limit after that.
\<close>

definition cutTo :: "nat option \<Rightarrow> 'a list \<Rightarrow> 'a list" where
  "cutTo n xs = (case n of None \<Rightarrow> xs | Some k \<Rightarrow> take k xs)"

definition pageAfter :: "int list \<Rightarrow> rat option \<Rightarrow> nat option \<Rightarrow> int list" where
  "pageAfter is c n =
     cutTo n (filter (\<lambda>i. case c of None \<Rightarrow> True | Some q \<Rightarrow> q < of_int i)
              (sorted_list_of_set (set is)))"

definition pageBefore :: "int list \<Rightarrow> rat option \<Rightarrow> nat option \<Rightarrow> int list" where
  "pageBefore is c n =
     cutTo n (filter (\<lambda>i. case c of None \<Rightarrow> True | Some q \<Rightarrow> of_int i < q)
              (rev (sorted_list_of_set (set is))))"

text \<open>
  A string argument reads as the number \<open>v\<close>: it is absent and so is \<open>v\<close>, or it is a
  string, not empty, that \<open>Number\<close> reads as \<open>v\<close>.
\<close>

definition readsAs :: "('x, 'd, 'm, 'b) Imports \<Rightarrow> string option \<Rightarrow> rat option \<Rightarrow> bool" where
  "readsAs imp arg v =
     (case arg of
        None \<Rightarrow> v = None
      | Some s \<Rightarrow> (case v of None \<Rightarrow> False | Some q \<Rightarrow> s \<noteq> [] \<and> Number imp s = Finite q))"

text \<open>
  The keys of a stored map are the strings of the ids \<open>is\<close>: positive integers, as the
  module numbers its proposals (\<open>nextProposalId\<close> is \<open>proposal_count + 1\<close>), each a
  non-empty string that \<open>Number\<close> reads back as the id (so below \<open>2^53\<close>, where \<open>Number\<close>
  is exact).
\<close>

definition keysOf ::
  "('x, 'd, 'm, 'b) Imports \<Rightarrow> (string \<times> 'p) list \<Rightarrow> int list \<Rightarrow> bool"
where
  "keysOf imp ps is =
     (map fst ps = map (\<lambda>i. toString imp (Finite (of_int i))) is \<and>
      distinct is \<and>
      list_all (\<lambda>i. 0 < i \<and> toString imp (Finite (of_int i)) \<noteq> [] \<and>
                    Number imp (toString imp (Finite (of_int i))) = Finite (of_int i)) is)"

section \<open>An example environment\<close>

text \<open>
  Concrete stand-ins for the imported parts, used to run the formulas on examples:
  expirations and durations are block heights, an expiration has elapsed once the block
  height has reached it, and \<open>rest\<close> of a proposal holds the outcome of its pass and of
  its reject condition. \<open>ex_Number\<close> and \<open>ex_toString\<close> are \<open>Number\<close> and \<open>toString\<close> on
  the few strings and numbers the examples use.
\<close>

definition ex_Number :: "string \<Rightarrow> jsnum" where
  "ex_Number s =
     (if s = ''0'' then Finite 0 else if s = ''1'' then Finite 1
      else if s = ''2'' then Finite 2 else if s = ''3'' then Finite 3
      else if s = ''5'' then Finite 5 else if s = ''7'' then Finite 7
      else if s = ''-1'' then Finite (- 1) else NaN)"

definition ex_toString :: "jsnum \<Rightarrow> string" where
  "ex_toString n =
     (if n = Finite 0 then ''0'' else if n = Finite 1 then ''1''
      else if n = Finite 2 then ''2'' else if n = Finite 3 then ''3''
      else if n = Finite 5 then ''5'' else if n = Finite 7 then ''7''
      else if n = Finite (- 1) then ''-1'' else ''NaN'')"

fun ex_localeCompare :: "string \<Rightarrow> string \<Rightarrow> int" where
  "ex_localeCompare [] [] = 0"
| "ex_localeCompare [] (y # ys) = - 1"
| "ex_localeCompare (x # xs) [] = 1"
| "ex_localeCompare (x # xs) (y # ys) =
     (if (of_char x :: nat) < of_char y then - 1
      else if (of_char y :: nat) < of_char x then 1
      else ex_localeCompare xs ys)"

definition ex_toISOString :: "Date \<Rightarrow> string" where
  "ex_toISOString d =
     (if d = 1000 then ''1970-01-01T00:00:01.000Z''
      else if d = 2000 then ''1970-01-01T00:00:02.000Z''
      else if d = 3000 then ''1970-01-01T00:00:03.000Z''
      else ''1970-01-01T00:00:00.000Z'')"

type_synonym ex_proposal = "(int, int, bool \<times> bool) SingleChoiceProposal"

type_synonym ex_env = "(int, int, bool \<times> bool, string) ContractEnv"

definition ex_imports :: "(int, int, bool \<times> bool, string) Imports" where
  "ex_imports =
     \<lparr>isPassed = (\<lambda>env p. fst (rest p)),
      isRejected = (\<lambda>env p. snd (rest p)),
      expirationPlusDuration = (\<lambda>e d. e + d),
      isExpirationExpired = (\<lambda>env e. e \<le> block_height env),
      Number = ex_Number,
      toString = ex_toString,
      localeCompare = ex_localeCompare,
      toISOString = ex_toISOString\<rparr>"

text \<open>The environment of a contract with no fact at all, at block 105.\<close>

definition ex_env :: ex_env where
  "ex_env =
     \<lparr>contractAddress = ''juno1proposalmodule'',
      block_height = 105,
      block_timeUnixMs = 0,
      get_proposal = (\<lambda>a path. None),
      get_ballot = (\<lambda>a path. None),
      getMap_proposals = (\<lambda>a path. None),
      getMap_ballots = (\<lambda>a path. None),
      getTransformationMatch_proposal = (\<lambda>a n. None),
      getTransformationMatch_voteCast = (\<lambda>a n. None),
      getTransformationMatches_voteCast = (\<lambda>a n gt l. None),
      getTransformationMap_proposals = (\<lambda>a n. None),
      getDateKeyModified = (\<lambda>a path. None),
      getDateKeyFirstSet = (\<lambda>a path. None),
      getDateKeyFirstSetWithValueMatch = (\<lambda>a path w. None),
      getDateFirstTransformed = (\<lambda>a n w. None)\<rparr>"

text \<open>An open proposal that expires at block 100, passes, and has a 10-block veto timelock.\<close>

definition ex_open_passing :: ex_proposal where
  "ex_open_passing =
     \<lparr>status = Open, expiration = 100, veto = Some \<lparr>timelock_duration = 10\<rparr>,
      rest = (True, False)\<rparr>"

text \<open>A proposal with the given status, expiring at block 100, with no veto, neither passing nor rejected.\<close>

definition ex_with_status :: "int Status \<Rightarrow> ex_proposal" where
  "ex_with_status st = \<lparr>status = st, expiration = 100, veto = None, rest = (False, False)\<rparr>"

text \<open>
  The example environment with timestamps: every proposal was first transformed at 1 s,
  and the raw writes record the first execution at 3 s and the first pass or rejection
  at 2 s.
\<close>

definition ex_env_dates :: ex_env where
  "ex_env_dates =
     ex_env
       \<lparr>getDateKeyFirstSetWithValueMatch :=
          (\<lambda>a path w.
             if w = StatusIn [''executed'', ''execution_failed''] then Some 3000
             else if w = StatusIn [''passed'', ''rejected''] then Some 2000
             else None),
        getDateFirstTransformed := (\<lambda>a n w. if w = None then Some 1000 else None)\<rparr>"

text \<open>
  Four stored proposals, with ids 1, 3, 5 and 7 (in no particular order): 1 and 3 rejected,
  5 passed, 7 executed; and the example environment whose transformation map holds them.
\<close>

definition ex_proposals :: "(string \<times> ex_proposal) list" where
  "ex_proposals =
     [(''7'', ex_with_status Executed), (''1'', ex_with_status Rejected),
      (''5'', ex_with_status Passed), (''3'', ex_with_status Rejected)]"

definition ex_env_list :: ex_env where
  "ex_env_list =
     ex_env\<lparr>getTransformationMap_proposals :=
              (\<lambda>a n. if n = ''proposal'' then Some ex_proposals else None)\<rparr>"

text \<open>
  The example environment with raw writes of one schema only: proposal 1, executed, stored
  under the raw key \<open>schema\<close>, whose first executed write there is at 3 s.
\<close>

definition ex_env_raw :: "string \<Rightarrow> ex_env" where
  "ex_env_raw schema =
     ex_env
       \<lparr>get_proposal :=
          (\<lambda>a path. if path = [KStr schema, KNum (Finite 1)] then Some (ex_with_status Executed)
                     else None),
        getDateKeyFirstSetWithValueMatch :=
          (\<lambda>a path w.
             if path = [KStr schema, KNum (Finite 1)] \<and>
                w = StatusIn [''executed'', ''execution_failed'']
             then Some 3000 else None)\<rparr>"

text \<open>
  The example environment with the ballots \<open>bs\<close> cast on proposal 1 and no vote
  transformation; every ballot has a modification date (2 s for \<open>junob\<close>, 1 s for the
  others). \<open>ex_ballots_51\<close> are the ballots of 51 voters \<open>a\<close>, \<open>aa\<close>, \<open>aaa\<close>, ...
\<close>

definition ex_env_votes :: "(string \<times> string) list \<Rightarrow> ex_env" where
  "ex_env_votes bs =
     ex_env
       \<lparr>getMap_ballots :=
          (\<lambda>a path. if path = [KStr ''ballots'', KNum (Finite 1)] then Some bs else None),
        getDateKeyModified :=
          (\<lambda>a path. if path = [KStr ''ballots'', KNum (Finite 1), KStr ''junob''] then Some 2000
                     else Some 1000)\<rparr>"

definition ex_ballots_51 :: "(string \<times> string) list" where
  "ex_ballots_51 = map (\<lambda>k. (replicate (Suc k) CHR ''a'', ''yes'')) [0 ..< 51]"

section \<open>Facts about promises\<close>

lemma fst_await: "fst (await m k) = (case fst m of Inl e \<Rightarrow> Inl e | Inr x \<Rightarrow> fst (k x))"
  by (simp add: await_def split: prod.splits sum.splits)

lemma snd_await:
  "snd (await m k) = (case fst m of Inl e \<Rightarrow> snd m | Inr x \<Rightarrow> snd m @ snd (k x))"
  by (simp add: await_def split: prod.splits sum.splits)

lemma fst_call: "fst (call a r) = Inr r"
  by (simp add: call_def)

lemma snd_call: "snd (call a r) = [a]"
  by (simp add: call_def)

lemma fst_resolve: "fst (resolve x) = Inr x"
  by (simp add: resolve_def)

lemma snd_resolve: "snd (resolve x) = []"
  by (simp add: resolve_def)

lemma fst_throw: "fst (throw e) = Inl e"
  by (simp add: throw_def)

lemma snd_throw: "snd (throw e) = []"
  by (simp add: throw_def)

lemma fst_nullish_call:
  "fst m2 = Inr y \<Longrightarrow> fst (nullish (call a r) m2) = Inr (case r of None \<Rightarrow> y | Some x \<Rightarrow> Some x)"
  by (simp add: nullish_def fst_await fst_call fst_resolve split: option.splits)

section \<open>The response of \<open>intoResponse\<close>\<close>

lemma fst_proposalCreatedAt:
  assumes "\<not> invalid_id imp (Some s)"
  shows "fst (proposalCreatedAt_compute imp env (Some s)) =
    Inr (map_option (toISOString imp)
      (case getDateFirstTransformed env (contractAddress env) (''proposal:'' @ s) None of
         Some d \<Rightarrow> Some d
       | None \<Rightarrow>
          (case getDateKeyFirstSet env (contractAddress env) [KStr ''proposals_v2'', KNum (Number imp s)] of
             Some d \<Rightarrow> Some d
           | None \<Rightarrow> getDateKeyFirstSet env (contractAddress env) [KStr ''proposals'', KNum (Number imp s)])))"
  using assms
  by (simp add: proposalCreatedAt_compute_def fst_await fst_nullish_call fst_call fst_resolve)

lemma fst_statusDate:
  "fst (statusDate imp env i v2 w) =
    Inr (map_option (toISOString imp)
      (case getDateFirstTransformed env (contractAddress env) (''proposal:'' @ toString imp i) (Some w) of
         Some d \<Rightarrow> Some d
       | None \<Rightarrow> getDateKeyFirstSetWithValueMatch env (contractAddress env) (rawPath v2 i) w))"
  by (simp add: statusDate_def fst_await fst_nullish_call fst_call fst_resolve)

text \<open>
  When the id passes the check of \<open>proposalCreatedAt\<close>, \<open>intoResponse\<close> returns a response;
  it carries the id and the proposal with its status updated.
\<close>

lemma intoResponse_returns:
  assumes "\<not> invalid_id imp (Some (toString imp i))"
  shows "\<exists>r t. intoResponse imp env p i v2 = (Inr r, t) \<and> proposal r = updateStatus imp env p \<and> id' r = i"
proof -
  have "\<exists>r. fst (intoResponse imp env p i v2) = Inr r \<and> proposal r = updateStatus imp env p \<and> id' r = i"
    using assms
    by (simp add: intoResponse_def Let_def fst_await fst_proposalCreatedAt fst_statusDate fst_resolve
        split: option.splits)
  then show ?thesis
    by (metis prod.collapse)
qed

lemma ex_valid_1: "\<not> invalid_id ex_imports (Some (toString ex_imports (Finite 1)))"
  by (simp add: invalid_id_def ex_imports_def ex_toString_def ex_Number_def)

section \<open>Status derivation\<close>

text \<open>
  C1. A proposal stored as \<open>Open\<close> whose pass condition holds derives to \<open>VetoTimelock\<close>
  with expiration \<open>expirationPlusDuration(proposal.expiration, veto.timelock_duration)\<close> when
  a veto is configured and that expiration has not elapsed, and to \<open>Passed\<close> when it has
  elapsed or no veto is configured. A proposal stored as \<open>VetoTimelock e\<close> derives to
  \<open>Passed\<close> exactly when \<open>e\<close> has elapsed.
\<close>

theorem intoResponse_open_passed:
  assumes "\<not> invalid_id imp (Some (toString imp i))"
  shows "\<exists>r t. intoResponse imp env p i v2 = (Inr r, t) \<and>
    (status p = Open \<and> isPassed imp env p \<longrightarrow>
       status (proposal r) =
         (case veto p of
            None \<Rightarrow> Passed
          | Some v \<Rightarrow>
              if isExpirationExpired imp env
                   (expirationPlusDuration imp (expiration p) (timelock_duration v))
              then Passed
              else VetoTimelock (expirationPlusDuration imp (expiration p) (timelock_duration v)))) \<and>
    (\<forall>e. status p = VetoTimelock e \<longrightarrow>
       (status (proposal r) = Passed) = isExpirationExpired imp env e)"
proof -
  obtain r t where r: "intoResponse imp env p i v2 = (Inr r, t)" "proposal r = updateStatus imp env p"
    using intoResponse_returns [OF assms] by blast
  have "status p = Open \<and> isPassed imp env p \<longrightarrow>
       status (updateStatus imp env p) =
         (case veto p of
            None \<Rightarrow> Passed
          | Some v \<Rightarrow>
              if isExpirationExpired imp env
                   (expirationPlusDuration imp (expiration p) (timelock_duration v))
              then Passed
              else VetoTimelock (expirationPlusDuration imp (expiration p) (timelock_duration v)))"
    by (simp add: updateStatus_def Let_def split: option.splits)
  moreover have "\<forall>e. status p = VetoTimelock e \<longrightarrow>
       (status (updateStatus imp env p) = Passed) = isExpirationExpired imp env e"
    by (simp add: updateStatus_def)
  ultimately show ?thesis
    using r by simp
qed

text \<open>
  The example of the specification: open, passing, a 10-block timelock on an expiration
  at block 100. At block 105 the status is \<open>VetoTimelock 110\<close>; at block 111 it is
  \<open>Passed\<close>, and so is a proposal stored as \<open>VetoTimelock 110\<close>.
\<close>

theorem intoResponse_open_passed_witness:
  "(\<exists>r t. intoResponse ex_imports ex_env ex_open_passing (Finite 1) False = (Inr r, t) \<and>
      status (proposal r) = VetoTimelock 110) \<and>
   (\<exists>r t. intoResponse ex_imports (ex_env\<lparr>block_height := 111\<rparr>) ex_open_passing (Finite 1) False = (Inr r, t) \<and>
      status (proposal r) = Passed) \<and>
   (\<exists>r t. intoResponse ex_imports (ex_env\<lparr>block_height := 111\<rparr>) (ex_with_status (VetoTimelock 110)) (Finite 1) False = (Inr r, t) \<and>
      status (proposal r) = Passed)"
  using intoResponse_open_passed [OF ex_valid_1, of ex_env ex_open_passing False]
    intoResponse_open_passed [OF ex_valid_1, of "ex_env\<lparr>block_height := 111\<rparr>" ex_open_passing False]
    intoResponse_open_passed [OF ex_valid_1, of "ex_env\<lparr>block_height := 111\<rparr>" "ex_with_status (VetoTimelock 110)" False]
  by (simp add: ex_imports_def ex_env_def ex_open_passing_def ex_with_status_def)

lemma updateStatus_terminal:
  "status (updateStatus imp env p) \<in> {Executed, ExecutionFailed, Closed} \<longrightarrow>
      status p = status (updateStatus imp env p)"
  by (cases "status p") (simp_all add: updateStatus_def Let_def split: option.splits)

lemma updateStatus_other:
  "status p \<noteq> Open \<and> (\<forall>e. status p \<noteq> VetoTimelock e) \<longrightarrow> updateStatus imp env p = p"
  by (cases "status p") (simp_all add: updateStatus_def)

lemma status_ex_with_status: "status (ex_with_status st) = st"
  by (simp add: ex_with_status_def)

text \<open>
  C5. A proposal stored as \<open>Open\<close> whose pass condition does not hold derives to
  \<open>Rejected\<close> when its own expiration has elapsed or the reject condition holds, and stays
  \<open>Open\<close> otherwise.
\<close>

theorem intoResponse_open_not_passed:
  assumes "\<not> invalid_id imp (Some (toString imp i))"
    and "status p = Open" and "\<not> isPassed imp env p"
  shows "\<exists>r t. intoResponse imp env p i v2 = (Inr r, t) \<and>
    status (proposal r) =
      (if isExpirationExpired imp env (expiration p) \<or> isRejected imp env p then Rejected else Open)"
proof -
  obtain r t where r: "intoResponse imp env p i v2 = (Inr r, t)" "proposal r = updateStatus imp env p"
    using intoResponse_returns [OF assms(1)] by blast
  have "status (updateStatus imp env p) =
      (if isExpirationExpired imp env (expiration p) \<or> isRejected imp env p then Rejected else Open)"
    using assms(2,3) by (simp add: updateStatus_def)
  then show ?thesis
    using r by simp
qed

text \<open>
  Expired at block 105: rejected. Not expired at block 99: still open, unless the reject
  condition holds.
\<close>

theorem intoResponse_open_not_passed_witness:
  "(\<exists>r t. intoResponse ex_imports ex_env (ex_with_status Open) (Finite 1) False = (Inr r, t) \<and>
      status (proposal r) = Rejected) \<and>
   (\<exists>r t. intoResponse ex_imports (ex_env\<lparr>block_height := 99\<rparr>) (ex_with_status Open) (Finite 1) False = (Inr r, t) \<and>
      status (proposal r) = Open) \<and>
   (\<exists>r t. intoResponse ex_imports (ex_env\<lparr>block_height := 99\<rparr>) ((ex_with_status Open)\<lparr>rest := (False, True)\<rparr>) (Finite 1) False = (Inr r, t) \<and>
      status (proposal r) = Rejected)"
proof -
  have a: "status (ex_with_status Open) = Open" "\<not> isPassed ex_imports env (ex_with_status Open)"
    "status ((ex_with_status Open)\<lparr>rest := (False, True)\<rparr>) = Open"
    "\<not> isPassed ex_imports env ((ex_with_status Open)\<lparr>rest := (False, True)\<rparr>)" for env
    by (simp_all add: ex_with_status_def ex_imports_def)
  show ?thesis
    using intoResponse_open_not_passed [OF ex_valid_1 a(1) a(2), of ex_env False]
      intoResponse_open_not_passed [OF ex_valid_1 a(1) a(2), of "ex_env\<lparr>block_height := 99\<rparr>" False]
      intoResponse_open_not_passed [OF ex_valid_1 a(3) a(4), of "ex_env\<lparr>block_height := 99\<rparr>" False]
    by (simp add: ex_imports_def ex_env_def ex_with_status_def)
qed


text \<open>
  C8. The status update never produces \<open>Executed\<close>, \<open>ExecutionFailed\<close> or \<open>Closed\<close> from
  another stored status, and a proposal whose stored status is neither \<open>Open\<close> nor a
  \<open>VetoTimelock\<close> is returned unchanged.
\<close>

theorem intoResponse_keeps_terminal_status:
  assumes "\<not> invalid_id imp (Some (toString imp i))"
  shows "\<exists>r t. intoResponse imp env p i v2 = (Inr r, t) \<and>
    (status (proposal r) \<in> {Executed, ExecutionFailed, Closed} \<longrightarrow> status p = status (proposal r)) \<and>
    (status p \<noteq> Open \<and> (\<forall>e. status p \<noteq> VetoTimelock e) \<longrightarrow> proposal r = p)"
proof -
  obtain r t where r: "intoResponse imp env p i v2 = (Inr r, t)" "proposal r = updateStatus imp env p"
    using intoResponse_returns [OF assms(1)] by blast
  have 1: "status (proposal r) \<in> {Executed, ExecutionFailed, Closed} \<longrightarrow> status p = status (proposal r)"
    unfolding r(2) by (rule updateStatus_terminal)
  have 2: "status p \<noteq> Open \<and> (\<forall>e. status p \<noteq> VetoTimelock e) \<longrightarrow> proposal r = p"
    unfolding r(2) by (rule updateStatus_other)
  from r(1) 1 2 show ?thesis
    by (intro exI conjI)
qed

text \<open>Executed, closed and any other stored status come back as stored.\<close>

theorem intoResponse_keeps_terminal_status_witness:
  "(\<exists>r t. intoResponse ex_imports ex_env (ex_with_status Executed) (Finite 1) False = (Inr r, t) \<and>
      proposal r = ex_with_status Executed) \<and>
   (\<exists>r t. intoResponse ex_imports ex_env (ex_with_status Closed) (Finite 1) False = (Inr r, t) \<and>
      proposal r = ex_with_status Closed) \<and>
   (\<exists>r t. intoResponse ex_imports ex_env (ex_with_status (OtherStatus ''vetoed'')) (Finite 1) False = (Inr r, t) \<and>
      proposal r = ex_with_status (OtherStatus ''vetoed''))"
proof -
  have "\<exists>r t. intoResponse ex_imports ex_env (ex_with_status st) (Finite 1) False = (Inr r, t) \<and>
      proposal r = ex_with_status st"
    if "st \<noteq> Open" "\<forall>e. st \<noteq> VetoTimelock e" for st
    using intoResponse_keeps_terminal_status [OF ex_valid_1, of ex_env "ex_with_status st" False] that
    by (simp add: status_ex_with_status) blast
  then show ?thesis
    by simp
qed

section \<open>Timestamps of the response\<close>

lemma fst_statusDate':
  "fst (statusDate imp env i v2 w) = Inr (firstStatusFact imp env i v2 w)"
  by (simp add: fst_statusDate firstStatusFact_def)

lemma fst_if: "fst (if c then a else b) = (if c then fst a else fst b)"
  by simp

lemma fst_intoResponse:
  assumes "\<not> invalid_id imp (Some (toString imp i))"
  shows "\<exists>created. fst (intoResponse imp env p i v2) =
    Inr \<lparr>id' = i, proposal = updateStatus imp env p, createdAt = created,
         completedAt =
           (if status (updateStatus imp env p) \<noteq> Open
            then (if js_truthy
                        (js_or
                           (if status (updateStatus imp env p) = Executed \<or>
                               status (updateStatus imp env p) = ExecutionFailed
                            then firstStatusFact imp env i v2 (StatusIn [''executed'', ''execution_failed''])
                            else None)
                           (if status (updateStatus imp env p) = Closed
                            then firstStatusFact imp env i v2 (StatusIs ''closed'')
                            else None))
                  then js_or
                         (if status (updateStatus imp env p) = Executed \<or>
                             status (updateStatus imp env p) = ExecutionFailed
                          then firstStatusFact imp env i v2 (StatusIn [''executed'', ''execution_failed''])
                          else None)
                         (if status (updateStatus imp env p) = Closed
                          then firstStatusFact imp env i v2 (StatusIs ''closed'')
                          else None)
                  else firstStatusFact imp env i v2 (StatusIn [''passed'', ''rejected'']))
            else None),
         executedAt =
           (if status (updateStatus imp env p) = Executed \<or>
               status (updateStatus imp env p) = ExecutionFailed
            then firstStatusFact imp env i v2 (StatusIn [''executed'', ''execution_failed''])
            else None),
         closedAt =
           (if status (updateStatus imp env p) = Closed
            then firstStatusFact imp env i v2 (StatusIs ''closed'')
            else None)\<rparr>"
proof -
  obtain c where c: "fst (proposalCreatedAt_compute imp env (Some (toString imp i))) = Inr c"
    using fst_proposalCreatedAt [OF assms] by blast
  show ?thesis
    unfolding intoResponse_def Let_def
    by (simp only: fst_await c sum.case fst_if fst_statusDate' fst_resolve
          if_distrib [of "case_sum Inl f" for f] cong: if_cong)
       simp
qed

lemma intoResponse_fields:
  assumes "\<not> invalid_id imp (Some (toString imp i))"
  shows "\<exists>r t. intoResponse imp env p i v2 = (Inr r, t) \<and>
    id' r = i \<and>
    proposal r = updateStatus imp env p \<and>
    executedAt r =
      (if status (updateStatus imp env p) = Executed \<or> status (updateStatus imp env p) = ExecutionFailed
       then firstStatusFact imp env i v2 (StatusIn [''executed'', ''execution_failed''])
       else None) \<and>
    closedAt r =
      (if status (updateStatus imp env p) = Closed
       then firstStatusFact imp env i v2 (StatusIs ''closed'')
       else None) \<and>
    completedAt r =
      (if status (updateStatus imp env p) \<noteq> Open
       then (if js_truthy (js_or (executedAt r) (closedAt r))
             then js_or (executedAt r) (closedAt r)
             else firstStatusFact imp env i v2 (StatusIn [''passed'', ''rejected'']))
       else None)"
proof -
  obtain c r where r: "fst (intoResponse imp env p i v2) = Inr r" and
    "r = \<lparr>id' = i, proposal = updateStatus imp env p, createdAt = c,
         completedAt =
           (if status (updateStatus imp env p) \<noteq> Open
            then (if js_truthy
                        (js_or
                           (if status (updateStatus imp env p) = Executed \<or>
                               status (updateStatus imp env p) = ExecutionFailed
                            then firstStatusFact imp env i v2 (StatusIn [''executed'', ''execution_failed''])
                            else None)
                           (if status (updateStatus imp env p) = Closed
                            then firstStatusFact imp env i v2 (StatusIs ''closed'')
                            else None))
                  then js_or
                         (if status (updateStatus imp env p) = Executed \<or>
                             status (updateStatus imp env p) = ExecutionFailed
                          then firstStatusFact imp env i v2 (StatusIn [''executed'', ''execution_failed''])
                          else None)
                         (if status (updateStatus imp env p) = Closed
                          then firstStatusFact imp env i v2 (StatusIs ''closed'')
                          else None)
                  else firstStatusFact imp env i v2 (StatusIn [''passed'', ''rejected'']))
            else None),
         executedAt =
           (if status (updateStatus imp env p) = Executed \<or>
               status (updateStatus imp env p) = ExecutionFailed
            then firstStatusFact imp env i v2 (StatusIn [''executed'', ''execution_failed''])
            else None),
         closedAt =
           (if status (updateStatus imp env p) = Closed
            then firstStatusFact imp env i v2 (StatusIs ''closed'')
            else None)\<rparr>"
    using fst_intoResponse [OF assms(1)] by blast
  then have "id' r = i \<and>
    proposal r = updateStatus imp env p \<and>
    executedAt r =
      (if status (updateStatus imp env p) = Executed \<or> status (updateStatus imp env p) = ExecutionFailed
       then firstStatusFact imp env i v2 (StatusIn [''executed'', ''execution_failed''])
       else None) \<and>
    closedAt r =
      (if status (updateStatus imp env p) = Closed
       then firstStatusFact imp env i v2 (StatusIs ''closed'')
       else None) \<and>
    completedAt r =
      (if status (updateStatus imp env p) \<noteq> Open
       then (if js_truthy (js_or (executedAt r) (closedAt r))
             then js_or (executedAt r) (closedAt r)
             else firstStatusFact imp env i v2 (StatusIn [''passed'', ''rejected'']))
       else None)"
    by simp
  moreover have "intoResponse imp env p i v2 = (Inr r, snd (intoResponse imp env p i v2))"
    using r by (metis prod.collapse)
  ultimately show ?thesis
    by blast
qed

lemma firstStatusFact_nonempty:
  "\<forall>d. toISOString imp d \<noteq> [] \<Longrightarrow> firstStatusFact imp env i v2 w \<noteq> Some []"
  by (auto simp: firstStatusFact_def split: option.splits)

lemma js_or_first:
  assumes "a \<noteq> Some []" "b \<noteq> Some []"
  shows "(if js_truthy (js_or a b) then js_or a b else z) =
     (case a of Some s \<Rightarrow> Some s | None \<Rightarrow> (case b of Some s \<Rightarrow> Some s | None \<Rightarrow> z))"
  using assms by (cases a; cases b) (simp_all add: js_or_def js_truthy_def)

text \<open>
  C7. When the derived status is not \<open>Open\<close>, \<open>completedAt\<close> is the first present of
  \<open>executedAt\<close>, \<open>closedAt\<close> and the timestamp of the earliest fact whose status is
  \<open>passed\<close> or \<open>rejected\<close> (the transformation preferred over the matched raw schema).
  When the derived status is \<open>Open\<close>, \<open>completedAt\<close>, \<open>executedAt\<close> and \<open>closedAt\<close> are
  absent. \<open>toISOString\<close> never returns the empty string.
\<close>

theorem completedAt_preference:
  assumes "\<not> invalid_id imp (Some (toString imp i))"
    and "\<forall>d. toISOString imp d \<noteq> []"
  shows "\<exists>r t. intoResponse imp env p i v2 = (Inr r, t) \<and>
    proposal r = updateStatus imp env p \<and>
    (status (proposal r) \<noteq> Open \<longrightarrow>
       completedAt r =
         (case executedAt r of
            Some s \<Rightarrow> Some s
          | None \<Rightarrow>
              (case closedAt r of
                 Some s \<Rightarrow> Some s
               | None \<Rightarrow> firstStatusFact imp env i v2 (StatusIn [''passed'', ''rejected''])))) \<and>
    (status (proposal r) = Open \<longrightarrow>
       completedAt r = None \<and> executedAt r = None \<and> closedAt r = None)"
proof -
  obtain r t where r: "intoResponse imp env p i v2 = (Inr r, t)"
    and pr: "proposal r = updateStatus imp env p"
    and ex: "executedAt r =
      (if status (updateStatus imp env p) = Executed \<or> status (updateStatus imp env p) = ExecutionFailed
       then firstStatusFact imp env i v2 (StatusIn [''executed'', ''execution_failed''])
       else None)"
    and cl: "closedAt r =
      (if status (updateStatus imp env p) = Closed
       then firstStatusFact imp env i v2 (StatusIs ''closed'')
       else None)"
    and co: "completedAt r =
      (if status (updateStatus imp env p) \<noteq> Open
       then (if js_truthy (js_or (executedAt r) (closedAt r))
             then js_or (executedAt r) (closedAt r)
             else firstStatusFact imp env i v2 (StatusIn [''passed'', ''rejected'']))
       else None)"
    using intoResponse_fields [OF assms(1)] by blast
  have ne: "executedAt r \<noteq> Some []" "closedAt r \<noteq> Some []"
    using firstStatusFact_nonempty [OF assms(2)] by (simp_all add: ex cl)
  have A: "status (proposal r) \<noteq> Open \<longrightarrow>
       completedAt r =
         (case executedAt r of
            Some s \<Rightarrow> Some s
          | None \<Rightarrow>
              (case closedAt r of
                 Some s \<Rightarrow> Some s
               | None \<Rightarrow> firstStatusFact imp env i v2 (StatusIn [''passed'', ''rejected''])))"
    by (simp add: pr co js_or_first [OF ne])
  have B: "status (proposal r) = Open \<longrightarrow>
       completedAt r = None \<and> executedAt r = None \<and> closedAt r = None"
    by (simp add: pr co ex cl)
  from r pr A B show ?thesis
    by (intro exI conjI)
qed

lemma ex_iso_nonempty: "\<forall>d. toISOString ex_imports d \<noteq> []"
  by (simp add: ex_imports_def ex_toISOString_def)

text \<open>
  A rejected proposal is completed at the first pass-or-rejection fact (2 s); an open one
  that stays open has none of the three timestamps.
\<close>

theorem completedAt_preference_witness:
  "(\<exists>r t. intoResponse ex_imports ex_env_dates (ex_with_status Rejected) (Finite 1) False = (Inr r, t) \<and>
      completedAt r =
        (case executedAt r of
           Some s \<Rightarrow> Some s
         | None \<Rightarrow> (case closedAt r of Some s \<Rightarrow> Some s | None \<Rightarrow> Some ''1970-01-01T00:00:02.000Z''))) \<and>
   (\<exists>r t. intoResponse ex_imports (ex_env_dates\<lparr>block_height := 99\<rparr>) (ex_with_status Open) (Finite 1) False = (Inr r, t) \<and>
      completedAt r = None \<and> executedAt r = None \<and> closedAt r = None)"
proof -
  have 1: "updateStatus ex_imports ex_env_dates (ex_with_status Rejected) = ex_with_status Rejected"
    by (simp add: updateStatus_def ex_with_status_def)
  have 2: "updateStatus ex_imports (ex_env_dates\<lparr>block_height := 99\<rparr>) (ex_with_status Open) = ex_with_status Open"
    by (simp add: updateStatus_def ex_with_status_def ex_imports_def)
  have 3: "firstStatusFact ex_imports ex_env_dates (Finite 1) False (StatusIn [''passed'', ''rejected'']) =
      Some ''1970-01-01T00:00:02.000Z''"
    by (simp add: firstStatusFact_def ex_env_dates_def ex_env_def ex_imports_def ex_toISOString_def)
  obtain r t where a: "intoResponse ex_imports ex_env_dates (ex_with_status Rejected) (Finite 1) False = (Inr r, t)"
    "proposal r = updateStatus ex_imports ex_env_dates (ex_with_status Rejected)"
    "status (proposal r) \<noteq> Open \<longrightarrow>
       completedAt r =
         (case executedAt r of
            Some s \<Rightarrow> Some s
          | None \<Rightarrow>
              (case closedAt r of
                 Some s \<Rightarrow> Some s
               | None \<Rightarrow> firstStatusFact ex_imports ex_env_dates (Finite 1) False (StatusIn [''passed'', ''rejected''])))"
    using completedAt_preference [OF ex_valid_1 ex_iso_nonempty, of ex_env_dates "ex_with_status Rejected" False]
    by blast
  have "status (proposal r) \<noteq> Open"
    by (simp add: a(2) 1 status_ex_with_status)
  with a(3) have "completedAt r =
        (case executedAt r of
           Some s \<Rightarrow> Some s
         | None \<Rightarrow> (case closedAt r of Some s \<Rightarrow> Some s | None \<Rightarrow> Some ''1970-01-01T00:00:02.000Z''))"
    by (simp add: 3 cong: option.case_cong)
  with a(1) have W1: "\<exists>r t. intoResponse ex_imports ex_env_dates (ex_with_status Rejected) (Finite 1) False = (Inr r, t) \<and>
      completedAt r =
        (case executedAt r of
           Some s \<Rightarrow> Some s
         | None \<Rightarrow> (case closedAt r of Some s \<Rightarrow> Some s | None \<Rightarrow> Some ''1970-01-01T00:00:02.000Z''))"
    by blast
  obtain r' t' where b: "intoResponse ex_imports (ex_env_dates\<lparr>block_height := 99\<rparr>) (ex_with_status Open) (Finite 1) False = (Inr r', t')"
    "proposal r' = updateStatus ex_imports (ex_env_dates\<lparr>block_height := 99\<rparr>) (ex_with_status Open)"
    "status (proposal r') = Open \<longrightarrow>
       completedAt r' = None \<and> executedAt r' = None \<and> closedAt r' = None"
    using completedAt_preference [OF ex_valid_1 ex_iso_nonempty, of "ex_env_dates\<lparr>block_height := 99\<rparr>" "ex_with_status Open" False]
    by blast
  have "status (proposal r') = Open"
    by (simp add: b(2) 2 status_ex_with_status)
  with b(1) b(3) have W2: "\<exists>r t. intoResponse ex_imports (ex_env_dates\<lparr>block_height := 99\<rparr>) (ex_with_status Open) (Finite 1) False = (Inr r, t) \<and>
      completedAt r = None \<and> executedAt r = None \<and> closedAt r = None"
    by blast
  from W1 W2 show ?thesis
    by (rule conjI)
qed

section \<open>The whole outcome of \<open>intoResponse\<close>\<close>

lemma await_eq: "fst m = Inr x \<Longrightarrow> await m k = (fst (k x), snd m @ snd (k x))"
  by (cases m) (simp add: await_def split: prod.splits)

lemma await_pair: "await (Inr x, t) k = (fst (k x), t @ snd (k x))"
  by (simp add: await_def split: prod.splits)

lemma snd_statusDate: "snd (statusDate imp env i v2 w) = statusDateLog imp env i v2 w"
  by (simp add: statusDate_def nullish_def await_def call_def resolve_def rawPath_def statusDateLog_def
      split: option.splits)

lemma statusDate_eq:
  "statusDate imp env i v2 w = (Inr (firstStatusFact imp env i v2 w), statusDateLog imp env i v2 w)"
  by (simp add: prod_eq_iff fst_statusDate' snd_statusDate)

lemma intoResponse_full:
  assumes "\<not> invalid_id imp (Some (toString imp i))"
  shows "\<exists>r. intoResponse imp env p i v2 =
      (Inr r, snd (proposalCreatedAt_compute imp env (Some (toString imp i))) @ timestampLog imp env v2 r) \<and>
    id' r = i \<and> proposal r = updateStatus imp env p \<and> timestampsOn imp env v2 r"
proof -
  define st where "st = status (updateStatus imp env p)"
  define E where "E = (if st = Executed \<or> st = ExecutionFailed
       then firstStatusFact imp env i v2 (StatusIn [''executed'', ''execution_failed'']) else None)"
  define C where "C = (if st = Closed then firstStatusFact imp env i v2 (StatusIs ''closed'') else None)"
  define D where "D = (if st = Open then None
       else if js_truthy (js_or E C) then js_or E C
       else firstStatusFact imp env i v2 (StatusIn [''passed'', ''rejected'']))"
  obtain c where c: "fst (proposalCreatedAt_compute imp env (Some (toString imp i))) = Inr c"
    using fst_proposalCreatedAt [OF assms] by blast
  define r where "r = \<lparr>id' = i, proposal = updateStatus imp env p, createdAt = c,
      completedAt = D, executedAt = E, closedAt = C\<rparr>"
  have m2: "(if st = Executed \<or> st = ExecutionFailed
             then statusDate imp env i v2 (StatusIn [''executed'', ''execution_failed''])
             else resolve None) =
      (Inr E, if st = Executed \<or> st = ExecutionFailed
              then statusDateLog imp env i v2 (StatusIn [''executed'', ''execution_failed'']) else [])"
    by (simp add: E_def statusDate_eq resolve_def)
  have m3: "(if st = Closed then statusDate imp env i v2 (StatusIs ''closed'') else resolve None) =
      (Inr C, if st = Closed then statusDateLog imp env i v2 (StatusIs ''closed'') else [])"
    by (simp add: C_def statusDate_eq resolve_def)
  have m4: "(if st \<noteq> Open
             then (if js_truthy (js_or E C)
                   then resolve (js_or E C)
                   else statusDate imp env i v2 (StatusIn [''passed'', ''rejected'']))
             else resolve None) =
      (Inr D, if st = Open \<or> js_truthy (js_or E C) then []
              else statusDateLog imp env i v2 (StatusIn [''passed'', ''rejected'']))"
    by (simp add: D_def statusDate_eq resolve_def)
  have "intoResponse imp env p i v2 =
      (Inr r, snd (proposalCreatedAt_compute imp env (Some (toString imp i))) @
        ((if st = Executed \<or> st = ExecutionFailed
          then statusDateLog imp env i v2 (StatusIn [''executed'', ''execution_failed'']) else []) @
         (if st = Closed then statusDateLog imp env i v2 (StatusIs ''closed'') else []) @
         (if st = Open \<or> js_truthy (js_or E C) then []
          else statusDateLog imp env i v2 (StatusIn [''passed'', ''rejected'']))))"
    unfolding intoResponse_def Let_def st_def [symmetric]
    by (simp only: await_eq [OF c] m2 m3 m4 await_pair fst_conv snd_conv)
       (simp add: resolve_def r_def)
  moreover have "timestampLog imp env v2 r =
        ((if st = Executed \<or> st = ExecutionFailed
          then statusDateLog imp env i v2 (StatusIn [''executed'', ''execution_failed'']) else []) @
         (if st = Closed then statusDateLog imp env i v2 (StatusIs ''closed'') else []) @
         (if st = Open \<or> js_truthy (js_or E C) then []
          else statusDateLog imp env i v2 (StatusIn [''passed'', ''rejected''])))"
    by (simp add: timestampLog_def r_def st_def)
  moreover have "timestampsOn imp env v2 r"
    by (simp add: timestampsOn_def r_def st_def [symmetric] D_def E_def C_def)
  moreover have "id' r = i" "proposal r = updateStatus imp env p"
    by (simp_all add: r_def)
  ultimately show ?thesis
    by (intro exI [of _ r]) simp
qed

section \<open>Listing proposals\<close>

lemma snd_Promise_all: "snd (Promise_all ms) = concat (map snd ms)"
  by (simp add: Promise_all_def)

lemma settle_all_values:
  "\<forall>m\<in>set ms. fst m = Inr (g m) \<Longrightarrow> settle (map fst ms) = Inr (map g ms)"
  by (induction ms) simp_all

lemma set_insort_by: "set (insort_by cmp x ys) = insert x (set ys)"
  by (induction ys) auto

lemma distinct_insort_by: "distinct (insort_by cmp x ys) = (x \<notin> set ys \<and> distinct ys)"
  by (induction ys) (auto simp: set_insort_by)

lemma set_sort_by: "set (sort_by cmp xs) = set xs"
  by (induction xs) (simp_all add: sort_by_def set_insort_by)

lemma distinct_sort_by: "distinct (sort_by cmp xs) = distinct xs"
  by (induction xs) (simp_all add: sort_by_def distinct_insort_by set_sort_by [unfolded sort_by_def])

lemma sorted_insort_asc:
  "sorted ys \<Longrightarrow> sorted (insort_by (\<lambda>a b. a - b) (x :: int) ys)"
  by (induction ys) (auto simp: set_insort_by)

lemma sorted_sort_asc: "sorted (sort_by (\<lambda>a b. a - b) (xs :: int list))"
  by (induction xs) (simp_all add: sort_by_def sorted_insort_asc)

lemma sorted_insort_desc:
  "sorted_wrt (\<lambda>a b. b \<le> a) ys \<Longrightarrow> sorted_wrt (\<lambda>a b. b \<le> a) (insort_by (\<lambda>a b. b - a) (x :: int) ys)"
  by (induction ys) (auto simp: set_insort_by)

lemma sorted_sort_desc: "sorted_wrt (\<lambda>a b. b \<le> a) (sort_by (\<lambda>a b. b - a) (xs :: int list))"
  by (induction xs) (simp_all add: sort_by_def sorted_insort_desc)

lemma sort_by_asc:
  assumes "distinct (xs :: int list)"
  shows "sort_by (\<lambda>a b. a - b) xs = sorted_list_of_set (set xs)"
proof (rule sorted_distinct_set_unique)
  show "sorted (sort_by (\<lambda>a b. a - b) xs)" by (rule sorted_sort_asc)
  show "distinct (sort_by (\<lambda>a b. a - b) xs)" using assms by (simp add: distinct_sort_by)
  show "sorted (sorted_list_of_set (set xs))" by simp
  show "distinct (sorted_list_of_set (set xs))" by simp
  show "set (sort_by (\<lambda>a b. a - b) xs) = set (sorted_list_of_set (set xs))"
    by (simp add: set_sort_by)
qed

lemma sort_by_desc:
  assumes "distinct (xs :: int list)"
  shows "sort_by (\<lambda>a b. b - a) xs = rev (sorted_list_of_set (set xs))"
proof -
  have "rev (sort_by (\<lambda>a b. b - a) xs) = sorted_list_of_set (set xs)"
  proof (rule sorted_distinct_set_unique)
    show "sorted (rev (sort_by (\<lambda>a b. b - a) xs))"
      using sorted_sort_desc [of xs] by (simp add: sorted_wrt_rev)
    show "distinct (rev (sort_by (\<lambda>a b. b - a) xs))" using assms by (simp add: distinct_sort_by)
    show "sorted (sorted_list_of_set (set xs))" by simp
    show "distinct (sorted_list_of_set (set xs))" by simp
    show "set (rev (sort_by (\<lambda>a b. b - a) xs)) = set (sorted_list_of_set (set xs))"
      by (simp add: set_sort_by)
  qed
  then show ?thesis
    by (metis rev_rev_ident)
qed

text \<open>On the numbers of integer ids, the comparators of the listings sort as on the integers.\<close>

lemma insort_by_numbers_asc:
  "insort_by (\<lambda>a b. js_sign (js_minus a b)) (Finite (of_int x)) (map (\<lambda>i. Finite (of_int i)) ys) =
     map (\<lambda>i. Finite (of_int i)) (insort_by (\<lambda>a b. a - b) x ys)"
  by (induction ys) simp_all

lemma sort_by_numbers_asc:
  "sort_by (\<lambda>a b. js_sign (js_minus a b)) (map (\<lambda>i. Finite (of_int i)) xs) =
     map (\<lambda>i. Finite (of_int i)) (sort_by (\<lambda>a b. a - b) xs)"
  by (induction xs) (simp_all add: sort_by_def insort_by_numbers_asc)

lemma insort_by_numbers_desc:
  "insort_by (\<lambda>a b. js_sign (js_minus b a)) (Finite (of_int x)) (map (\<lambda>i. Finite (of_int i)) ys) =
     map (\<lambda>i. Finite (of_int i)) (insort_by (\<lambda>a b. b - a) x ys)"
  by (induction ys) simp_all

lemma sort_by_numbers_desc:
  "sort_by (\<lambda>a b. js_sign (js_minus b a)) (map (\<lambda>i. Finite (of_int i)) xs) =
     map (\<lambda>i. Finite (of_int i)) (sort_by (\<lambda>a b. b - a) xs)"
  by (induction xs) (simp_all add: sort_by_def insort_by_numbers_desc)

lemma keysOf_numbers:
  assumes "keysOf imp ps is"
  shows "map (Number imp) (map fst ps) = map (\<lambda>i. Finite (of_int i)) is"
  using assms by (simp add: keysOf_def list_all_iff)

lemma slice0_limit:
  assumes "readsAs imp limit (map_option of_nat n)"
  shows "slice0 (map f xs) (limitNum imp limit) = map f (cutTo n xs)"
proof (cases limit)
  case None
  with assms show ?thesis
    by (simp add: readsAs_def limitNum_def cutTo_def)
next
  case (Some l)
  with assms obtain k where "n = Some k" "l \<noteq> []" "Number imp l = Finite (of_nat k)"
    by (cases n) (auto simp: readsAs_def)
  with Some show ?thesis
    by (simp add: limitNum_def cutTo_def take_map)
qed

lemma filter_after:
  assumes "readsAs imp cursor c" and "\<forall>i\<in>set xs. 0 < i"
  shows "filter (\<lambda>j. js_gt j (startAfterNum imp cursor)) (map (\<lambda>i. Finite (of_int i)) xs) =
     map (\<lambda>i. Finite (of_int i)) (filter (\<lambda>i. case c of None \<Rightarrow> True | Some q \<Rightarrow> q < of_int i) xs)"
proof (cases cursor)
  case None
  with assms(1) show ?thesis
    by (simp add: readsAs_def startAfterNum_def js_gt_def filter_map o_def)
next
  case (Some s)
  with assms(1) obtain q where q: "c = Some q" "s \<noteq> []" "Number imp s = Finite q"
    by (cases c) (auto simp: readsAs_def)
  have n: "startAfterNum imp cursor = Finite (max 0 q)"
    using Some q by (simp add: startAfterNum_def max_def)
  have f: "filter (\<lambda>i. max 0 q < of_int i) xs = filter (\<lambda>i. q < of_int i) xs"
    using assms(2) by (intro filter_cong) auto
  show ?thesis
    unfolding n by (simp add: js_gt_def filter_map o_def f q(1) del: max_less_iff_conj)
qed

lemma filter_before:
  assumes "readsAs imp cursor c" and "\<forall>i\<in>set xs. 0 < i"
  shows "filter (\<lambda>j. js_lt j (startBeforeNum imp cursor)) (map (\<lambda>i. Finite (of_int i)) xs) =
     map (\<lambda>i. Finite (of_int i)) (filter (\<lambda>i. case c of None \<Rightarrow> True | Some q \<Rightarrow> of_int i < q) xs)"
proof (cases cursor)
  case None
  with assms(1) show ?thesis
    by (simp add: readsAs_def startBeforeNum_def filter_map o_def)
next
  case (Some s)
  with assms(1) obtain q where q: "c = Some q" "s \<noteq> []" "Number imp s = Finite q"
    by (cases c) (auto simp: readsAs_def)
  have n: "startBeforeNum imp cursor = Finite (max 0 q)"
    using Some q by (simp add: startBeforeNum_def max_def)
  have f: "filter (\<lambda>i. of_int i < max 0 q) xs = filter (\<lambda>i. of_int i < q) xs"
    using assms(2) by (intro filter_cong) auto
  show ?thesis
    unfolding n by (simp add: filter_map o_def f q(1) del: less_max_iff_disj)
qed

lemma keysOf_positive: "keysOf imp ps is \<Longrightarrow> \<forall>i\<in>set is. 0 < i"
  by (simp add: keysOf_def list_all_iff)

lemma proposalIds_asc_page:
  assumes "keysOf imp ps is" and "readsAs imp cursor c" and "readsAs imp limit (map_option of_nat n)"
  shows "proposalIds_asc imp ps limit cursor = map (\<lambda>i. Finite (of_int i)) (pageAfter is c n)"
proof -
  have d: "distinct is"
    using assms(1) by (simp add: keysOf_def)
  have pos: "\<forall>i\<in>set (sorted_list_of_set (set is)). 0 < i"
    using keysOf_positive [OF assms(1)] by simp
  show ?thesis
    unfolding proposalIds_asc_def pageAfter_def keysOf_numbers [OF assms(1)] sort_by_numbers_asc
      sort_by_asc [OF d] filter_after [OF assms(2) pos]
    by (rule slice0_limit [OF assms(3)])
qed

lemma proposalIds_desc_page:
  assumes "keysOf imp ps is" and "readsAs imp cursor c" and "readsAs imp limit (map_option of_nat n)"
  shows "proposalIds_desc imp ps limit cursor = map (\<lambda>i. Finite (of_int i)) (pageBefore is c n)"
proof -
  have d: "distinct is"
    using assms(1) by (simp add: keysOf_def)
  have pos: "\<forall>i\<in>set (rev (sorted_list_of_set (set is))). 0 < i"
    using keysOf_positive [OF assms(1)] by simp
  show ?thesis
    unfolding proposalIds_desc_def pageBefore_def keysOf_numbers [OF assms(1)] sort_by_numbers_desc
      sort_by_desc [OF d] filter_before [OF assms(2) pos]
    by (rule slice0_limit [OF assms(3)])
qed

text \<open>
  When every id of the page passes the check of \<open>proposalCreatedAt\<close> and names an entry
  of the map, the sub-evaluations all return: one response per id, in the order of the
  page, and the log of each.
\<close>

lemma intoResponses_full:
  assumes "\<forall>i\<in>set ids. \<not> invalid_id imp (Some (toString imp i)) \<and> map_of ps (toString imp i) \<noteq> None"
  shows "\<exists>rs. intoResponses imp env ps v2 ids =
      (Inr rs,
       concat (map (\<lambda>r. snd (proposalCreatedAt_compute imp env (Some (toString imp (id' r)))) @
                         timestampLog imp env v2 r) rs)) \<and>
    list_all2 (\<lambda>i r. id' r = i \<and>
                 (\<exists>p. map_of ps (toString imp i) = Some p \<and> proposal r = updateStatus imp env p) \<and>
                 timestampsOn imp env v2 r) ids rs"
  using assms
proof (induction ids)
  case Nil
  show ?case
    by (simp add: intoResponses_def Promise_all_def)
next
  case (Cons i ids)
  then obtain rs where rs: "intoResponses imp env ps v2 ids =
      (Inr rs,
       concat (map (\<lambda>r. snd (proposalCreatedAt_compute imp env (Some (toString imp (id' r)))) @
                         timestampLog imp env v2 r) rs))"
    and all: "list_all2 (\<lambda>i r. id' r = i \<and>
                 (\<exists>p. map_of ps (toString imp i) = Some p \<and> proposal r = updateStatus imp env p) \<and>
                 timestampsOn imp env v2 r) ids rs"
    by auto
  from Cons.prems obtain p where p: "map_of ps (toString imp i) = Some p"
    and v: "\<not> invalid_id imp (Some (toString imp i))"
    by auto
  obtain r where r: "intoResponse imp env p i v2 =
      (Inr r, snd (proposalCreatedAt_compute imp env (Some (toString imp i))) @ timestampLog imp env v2 r)"
    and f: "id' r = i" "proposal r = updateStatus imp env p" "timestampsOn imp env v2 r"
    using intoResponse_full [OF v, of env p v2] by blast
  have "intoResponses imp env ps v2 (i # ids) =
      (Inr (r # rs),
       concat (map (\<lambda>r. snd (proposalCreatedAt_compute imp env (Some (toString imp (id' r)))) @
                         timestampLog imp env v2 r) (r # rs)))"
    using rs by (simp add: intoResponses_def Promise_all_def p r f(1))
  moreover have "list_all2 (\<lambda>i r. id' r = i \<and>
                 (\<exists>p. map_of ps (toString imp i) = Some p \<and> proposal r = updateStatus imp env p) \<and>
                 timestampsOn imp env v2 r) (i # ids) (r # rs)"
    using all p f by simp
  ultimately show ?case
    by blast
qed

lemma keysOf_page_ok:
  assumes "keysOf imp ps is" and "set ids \<subseteq> (\<lambda>i. Finite (of_int i)) ` set is"
  shows "\<forall>i\<in>set ids. \<not> invalid_id imp (Some (toString imp i)) \<and> map_of ps (toString imp i) \<noteq> None"
proof
  fix j assume "j \<in> set ids"
  with assms(2) obtain i where i: "i \<in> set is" "j = Finite (of_int i)"
    by auto
  with assms(1) have a: "0 < i" "toString imp j \<noteq> []" "Number imp (toString imp j) = j"
    by (auto simp: keysOf_def list_all_iff)
  from assms(1) i have "toString imp j \<in> set (map fst ps)"
    by (auto simp: keysOf_def)
  then have "map_of ps (toString imp j) \<noteq> None"
    by (simp add: map_of_eq_None_iff)
  moreover have "\<not> invalid_id imp (Some (toString imp j))"
    using a i(2) by (simp add: invalid_id_def)
  ultimately show "\<not> invalid_id imp (Some (toString imp j)) \<and> map_of ps (toString imp j) \<noteq> None"
    by simp
qed

lemma set_cutTo: "set (cutTo n xs) \<subseteq> set xs"
  by (cases n) (auto simp: cutTo_def dest: in_set_takeD)

lemma set_pageAfter: "set (pageAfter is c n) \<subseteq> set is"
  unfolding pageAfter_def using set_cutTo by fastforce

lemma set_pageBefore: "set (pageBefore is c n) \<subseteq> set is"
  unfolding pageBefore_def using set_cutTo by fastforce

lemma listProposals_resolved:
  assumes "fst (resolveProposals env) = Inr (Some ps, v2)"
    and "intoResponses imp env ps v2 (proposalIds_asc imp ps limit startAfter) = (Inr rs, t)"
  shows "listProposals_compute imp env limit startAfter flt =
    (Inr (filter (\<lambda>r. if flt = Some ''passed'' then passedFilter r else True) rs),
     snd (resolveProposals env) @ t)"
  unfolding listProposals_compute_def
  by (simp add: await_eq [OF assms(1)] assms(2) await_pair resolve_def)

lemma reverseProposals_resolved:
  assumes "fst (resolveProposals env) = Inr (Some ps, v2)"
    and "intoResponses imp env ps v2 (proposalIds_desc imp ps limit startBefore) = (Inr rs, t)"
  shows "reverseProposals_compute imp env limit startBefore = (Inr rs, snd (resolveProposals env) @ t)"
  unfolding reverseProposals_compute_def
  by (simp add: await_eq [OF assms(1)] assms(2))

lemma list_all2_ids:
  "list_all2 (\<lambda>i r. id' r = i \<and> Q i r) ids rs \<Longrightarrow> map id' rs = ids"
  by (induction ids rs rule: list_all2_induct) simp_all

text \<open>
  C4. For every set of stored proposal ids, the ascending listing returns exactly the ids
  strictly greater than the \<open>startAfter\<close> cursor, in ascending order, cut to the limit
  after that (all of them when the limit is absent), and the descending listing returns
  exactly the ids strictly less than the \<open>startBefore\<close> cursor, in descending order, cut
  the same way. The stored ids are positive integers whose strings are the keys of the
  map; the cursor and the limit are absent or numbers, the limit a natural number; the
  ascending listing is taken without its \<open>passed\<close> filter.
\<close>

theorem proposal_pagination:
  assumes "fst (resolveProposals env) = Inr (Some ps, v2)"
    and "keysOf imp ps is"
    and "readsAs imp cursor c"
    and "readsAs imp limit (map_option of_nat n)"
    and "flt \<noteq> Some ''passed''"
  shows
    "(\<exists>rs t. listProposals_compute imp env limit cursor flt = (Inr rs, t) \<and>
        map id' rs = map (\<lambda>i. Finite (of_int i)) (pageAfter is c n)) \<and>
     (\<exists>rs t. reverseProposals_compute imp env limit cursor = (Inr rs, t) \<and>
        map id' rs = map (\<lambda>i. Finite (of_int i)) (pageBefore is c n))"
proof (rule conjI)
  have "set (map (\<lambda>i. Finite (of_int i)) (pageAfter is c n)) \<subseteq> (\<lambda>i. Finite (of_int i)) ` set is"
    using set_pageAfter [of "is" c n] by auto
  from intoResponses_full [OF keysOf_page_ok [OF assms(2) this], of env v2]
  obtain rs where rs: "intoResponses imp env ps v2 (proposalIds_asc imp ps limit cursor) =
      (Inr rs,
       concat (map (\<lambda>r. snd (proposalCreatedAt_compute imp env (Some (toString imp (id' r)))) @
                         timestampLog imp env v2 r) rs))"
    and ids: "map id' rs = map (\<lambda>i. Finite (of_int i)) (pageAfter is c n)"
    unfolding proposalIds_asc_page [OF assms(2,3,4)] by (auto dest: list_all2_ids)
  from listProposals_resolved [OF assms(1) rs, of flt] assms(5) ids
  show "\<exists>rs t. listProposals_compute imp env limit cursor flt = (Inr rs, t) \<and>
        map id' rs = map (\<lambda>i. Finite (of_int i)) (pageAfter is c n)"
    by auto
next
  have "set (map (\<lambda>i. Finite (of_int i)) (pageBefore is c n)) \<subseteq> (\<lambda>i. Finite (of_int i)) ` set is"
    using set_pageBefore [of "is" c n] by auto
  from intoResponses_full [OF keysOf_page_ok [OF assms(2) this], of env v2]
  obtain rs where rs: "intoResponses imp env ps v2 (proposalIds_desc imp ps limit cursor) =
      (Inr rs,
       concat (map (\<lambda>r. snd (proposalCreatedAt_compute imp env (Some (toString imp (id' r)))) @
                         timestampLog imp env v2 r) rs))"
    and ids: "map id' rs = map (\<lambda>i. Finite (of_int i)) (pageBefore is c n)"
    unfolding proposalIds_desc_page [OF assms(2,3,4)] by (auto dest: list_all2_ids)
  from reverseProposals_resolved [OF assms(1) rs] ids
  show "\<exists>rs t. reverseProposals_compute imp env limit cursor = (Inr rs, t) \<and>
        map id' rs = map (\<lambda>i. Finite (of_int i)) (pageBefore is c n)"
    by auto
qed

lemma ex_keysOf: "keysOf ex_imports ex_proposals [7, 1, 5, 3]"
  by (simp add: keysOf_def ex_proposals_def ex_imports_def ex_toString_def ex_Number_def)

lemma ex_env_list_resolved: "fst (resolveProposals ex_env_list) = Inr (Some ex_proposals, False)"
  by (simp add: resolveProposals_def ex_env_list_def ex_env_def fst_await fst_call fst_resolve)

lemma ex_sorted_ids: "sorted_list_of_set (set [7, 1, 5, 3 :: int]) = [1, 3, 5, 7]"
  by (simp only: sorted_list_of_set_sort_remdups) simp

lemma ex_readsAs:
  "readsAs ex_imports None None"
  "readsAs ex_imports (Some ''3'') (Some 3)"
  "readsAs ex_imports (Some ''5'') (Some 5)"
  "readsAs ex_imports (Some ''2'') (map_option of_nat (Some 2))"
  "readsAs ex_imports None (map_option of_nat None)"
  by (simp_all add: readsAs_def ex_imports_def ex_Number_def)

text \<open>
  The example of the specification: ids 1, 3, 5, 7; \<open>startAfter = "3"\<close> and \<open>limit = "2"\<close>
  give 5, 7; \<open>startBefore = "5"\<close>, descending, gives 3, 1.
\<close>

theorem proposal_pagination_witness:
  "(\<exists>rs t. listProposals_compute ex_imports ex_env_list (Some ''2'') (Some ''3'') None = (Inr rs, t) \<and>
      map id' rs = [Finite 5, Finite 7]) \<and>
   (\<exists>rs t. reverseProposals_compute ex_imports ex_env_list None (Some ''5'') = (Inr rs, t) \<and>
      map id' rs = [Finite 3, Finite 1])"
proof -
  have f: "(None :: string option) \<noteq> Some ''passed''"
    by simp
  have p1: "pageAfter [7, 1, 5, 3] (Some 3) (Some 2) = [5, 7]"
    unfolding pageAfter_def ex_sorted_ids by (simp add: cutTo_def)
  have p2: "pageBefore [7, 1, 5, 3] (Some 5) None = [3, 1]"
    unfolding pageBefore_def ex_sorted_ids by (simp add: cutTo_def)
  from proposal_pagination [OF ex_env_list_resolved ex_keysOf ex_readsAs(2) ex_readsAs(4) f,
      THEN conjunct1]
  have a: "\<exists>rs t. listProposals_compute ex_imports ex_env_list (Some ''2'') (Some ''3'') None = (Inr rs, t) \<and>
      map id' rs = [Finite 5, Finite 7]"
    unfolding p1 by simp
  from proposal_pagination [OF ex_env_list_resolved ex_keysOf ex_readsAs(3) ex_readsAs(5) f,
      THEN conjunct2]
  have b: "\<exists>rs t. reverseProposals_compute ex_imports ex_env_list None (Some ''5'') = (Inr rs, t) \<and>
      map id' rs = [Finite 3, Finite 1]"
    unfolding p2 by simp
  from a b show ?thesis
    by (rule conjI)
qed

text \<open>
  C10. In the ascending listing the \<open>passed\<close> filter is applied to the page, after the
  cursor and the limit: the ids are sorted ascending, those not greater than \<open>startAfter\<close>
  are dropped, the first \<open>limit\<close> are taken, their responses are derived (each the stored
  proposal with its status updated), and only then are the responses that are not passed,
  executed or execution-failed dropped. The stored ids are positive integers whose strings
  are the keys of the map; the cursor and the limit are absent or numbers.
\<close>

theorem passed_filter_after_truncation:
  assumes "fst (resolveProposals env) = Inr (Some ps, v2)"
    and "keysOf imp ps is"
    and "readsAs imp startAfter c"
    and "readsAs imp limit (map_option of_nat n)"
  shows "\<exists>rs t.
    list_all2 (\<lambda>i r. id' r = Finite (of_int i) \<and>
                 (\<exists>p. map_of ps (toString imp (Finite (of_int i))) = Some p \<and>
                      proposal r = updateStatus imp env p))
      (pageAfter is c n) rs \<and>
    listProposals_compute imp env limit startAfter None = (Inr rs, t) \<and>
    listProposals_compute imp env limit startAfter (Some ''passed'') = (Inr (filter passedFilter rs), t)"
proof -
  have "set (map (\<lambda>i. Finite (of_int i)) (pageAfter is c n)) \<subseteq> (\<lambda>i. Finite (of_int i)) ` set is"
    using set_pageAfter [of "is" c n] by auto
  from intoResponses_full [OF keysOf_page_ok [OF assms(2) this], of env v2]
  obtain rs t where rs: "intoResponses imp env ps v2 (proposalIds_asc imp ps limit startAfter) = (Inr rs, t)"
    and all: "list_all2 (\<lambda>i r. id' r = i \<and>
                 (\<exists>p. map_of ps (toString imp i) = Some p \<and> proposal r = updateStatus imp env p) \<and>
                 timestampsOn imp env v2 r)
        (map (\<lambda>i. Finite (of_int i)) (pageAfter is c n)) rs"
    unfolding proposalIds_asc_page [OF assms(2,3,4)] by blast
  from all have 1: "list_all2 (\<lambda>i r. id' r = Finite (of_int i) \<and>
                 (\<exists>p. map_of ps (toString imp (Finite (of_int i))) = Some p \<and>
                      proposal r = updateStatus imp env p))
      (pageAfter is c n) rs"
    by (simp add: list_all2_map1 list_all2_mono)
  have 2: "listProposals_compute imp env limit startAfter None =
      (Inr rs, snd (resolveProposals env) @ t)"
    using listProposals_resolved [OF assms(1) rs, of None] by simp
  have 3: "listProposals_compute imp env limit startAfter (Some ''passed'') =
      (Inr (filter passedFilter rs), snd (resolveProposals env) @ t)"
    using listProposals_resolved [OF assms(1) rs, of "Some ''passed''"] by simp
  from 1 2 3 show ?thesis
    by (intro exI conjI)
qed

lemma ex_updateStatus_stored:
  "st \<noteq> Open \<Longrightarrow> \<forall>e. st \<noteq> VetoTimelock e \<Longrightarrow>
   updateStatus imp env (ex_with_status st) = ex_with_status st"
  using updateStatus_other [of "ex_with_status st" imp env] by (simp add: status_ex_with_status)

text \<open>
  With the limit 2 the page is 1, 3, both rejected, and the filtered listing is empty,
  although 5 and 7 pass the filter when no limit is given.
\<close>

theorem passed_filter_after_truncation_witness:
  "(\<exists>t. listProposals_compute ex_imports ex_env_list (Some ''2'') None (Some ''passed'') = (Inr [], t)) \<and>
   (\<exists>rs t. listProposals_compute ex_imports ex_env_list None None (Some ''passed'') = (Inr rs, t) \<and>
      map id' rs = [Finite 5, Finite 7])"
proof -
  have p1: "pageAfter [7, 1, 5, 3] None (Some 2) = [1, 3]"
    unfolding pageAfter_def ex_sorted_ids by (simp add: cutTo_def)
  have p2: "pageAfter [7, 1, 5, 3] None None = [1, 3, 5, 7]"
    unfolding pageAfter_def ex_sorted_ids by (simp add: cutTo_def)
  have s: "toString ex_imports (Finite 1) = ''1''" "toString ex_imports (Finite 3) = ''3''"
    "toString ex_imports (Finite 5) = ''5''" "toString ex_imports (Finite 7) = ''7''"
    by (simp_all add: ex_imports_def ex_toString_def)
  obtain rs t where a:
    "list_all2 (\<lambda>i r. id' r = Finite (of_int i) \<and>
                 (\<exists>p. map_of ex_proposals (toString ex_imports (Finite (of_int i))) = Some p \<and>
                      proposal r = updateStatus ex_imports ex_env_list p))
      [1, 3] rs"
    "listProposals_compute ex_imports ex_env_list (Some ''2'') None (Some ''passed'') =
       (Inr (filter passedFilter rs), t)"
    using passed_filter_after_truncation [OF ex_env_list_resolved ex_keysOf ex_readsAs(1) ex_readsAs(4)]
    unfolding p1 by blast
  from a(1) have "filter passedFilter rs = []"
    by (auto simp: list_all2_Cons1 s ex_proposals_def passedFilter_def ex_updateStatus_stored
        status_ex_with_status)
  with a(2) have W1: "\<exists>t. listProposals_compute ex_imports ex_env_list (Some ''2'') None (Some ''passed'') = (Inr [], t)"
    by auto
  obtain rs' u where b:
    "list_all2 (\<lambda>i r. id' r = Finite (of_int i) \<and>
                 (\<exists>p. map_of ex_proposals (toString ex_imports (Finite (of_int i))) = Some p \<and>
                      proposal r = updateStatus ex_imports ex_env_list p))
      [1, 3, 5, 7] rs'"
    "listProposals_compute ex_imports ex_env_list None None (Some ''passed'') =
       (Inr (filter passedFilter rs'), u)"
    using passed_filter_after_truncation [OF ex_env_list_resolved ex_keysOf ex_readsAs(1) ex_readsAs(5)]
    unfolding p2 by blast
  from b(1) have "map id' (filter passedFilter rs') = [Finite 5, Finite 7]"
    by (auto simp: list_all2_Cons1 s ex_proposals_def passedFilter_def ex_updateStatus_stored
        status_ex_with_status)
  with b(2) have W2: "\<exists>rs t. listProposals_compute ex_imports ex_env_list None None (Some ''passed'') = (Inr rs, t) \<and>
      map id' rs = [Finite 5, Finite 7]"
    by auto
  from W1 W2 show ?thesis
    by (rule conjI)
qed

section \<open>The order of the lookups\<close>

lemma resolveProposal_eq:
  "resolveProposal imp env idS =
     (case getTransformationMatch_proposal env (contractAddress env) (''proposal:'' @ idS) of
        Some p \<Rightarrow>
          (Inr (Some p, False), [GetTransformationMatch (contractAddress env) (''proposal:'' @ idS)])
      | None \<Rightarrow>
          (case get_proposal env (contractAddress env) [KStr ''proposals_v2'', KNum (Number imp idS)] of
             Some p \<Rightarrow>
               (Inr (Some p, True),
                [GetTransformationMatch (contractAddress env) (''proposal:'' @ idS),
                 Get (contractAddress env) [KStr ''proposals_v2'', KNum (Number imp idS)]])
           | None \<Rightarrow>
               (Inr (get_proposal env (contractAddress env) [KStr ''proposals'', KNum (Number imp idS)], False),
                [GetTransformationMatch (contractAddress env) (''proposal:'' @ idS),
                 Get (contractAddress env) [KStr ''proposals_v2'', KNum (Number imp idS)],
                 Get (contractAddress env) [KStr ''proposals'', KNum (Number imp idS)]])))"
  by (simp add: resolveProposal_def await_def call_def resolve_def split: option.splits)

lemma resolveProposals_eq:
  "resolveProposals env =
     (case getTransformationMap_proposals env (contractAddress env) ''proposal'' of
        Some ps \<Rightarrow>
          (Inr (Some ps, False), [GetTransformationMap (contractAddress env) ''proposal''])
      | None \<Rightarrow>
          (case getMap_proposals env (contractAddress env) [KStr ''proposals_v2''] of
             Some ps \<Rightarrow>
               (Inr (Some ps, True),
                [GetTransformationMap (contractAddress env) ''proposal'',
                 GetMap (contractAddress env) [KStr ''proposals_v2'']])
           | None \<Rightarrow>
               (Inr (getMap_proposals env (contractAddress env) [KStr ''proposals''], False),
                [GetTransformationMap (contractAddress env) ''proposal'',
                 GetMap (contractAddress env) [KStr ''proposals_v2''],
                 GetMap (contractAddress env) [KStr ''proposals'']])))"
  by (simp add: resolveProposals_def await_def call_def resolve_def split: option.splits)

text \<open>The outcome of the single-proposal formula once the lookup is known.\<close>

lemma proposal_compute_none:
  assumes "\<not> invalid_id imp (Some idS)"
    and "resolveProposal imp env idS = (Inr (None, v2), lookups)"
  shows "proposal_compute imp env (Some idS) = (Inr None, lookups)"
  using assms by (simp add: proposal_compute_def await_pair resolve_def)

lemma proposal_compute_some:
  assumes "\<not> invalid_id imp (Some idS)"
    and "\<not> invalid_id imp (Some (toString imp (Number imp idS)))"
    and "resolveProposal imp env idS = (Inr (Some p, v2), lookups)"
  shows "\<exists>r. proposal_compute imp env (Some idS) =
      (Inr (Some r),
       lookups @ snd (proposalCreatedAt_compute imp env (Some (toString imp (Number imp idS)))) @
       timestampLog imp env v2 r) \<and>
    id' r = Number imp idS \<and> proposal r = updateStatus imp env p \<and> timestampsOn imp env v2 r"
proof -
  obtain r where r: "intoResponse imp env p (Number imp idS) v2 =
      (Inr r, snd (proposalCreatedAt_compute imp env (Some (toString imp (Number imp idS)))) @
              timestampLog imp env v2 r)"
    and f: "id' r = Number imp idS" "proposal r = updateStatus imp env p" "timestampsOn imp env v2 r"
    using intoResponse_full [OF assms(2), of env p v2] by blast
  have "proposal_compute imp env (Some idS) =
      (Inr (Some r),
       lookups @ snd (proposalCreatedAt_compute imp env (Some (toString imp (Number imp idS)))) @
       timestampLog imp env v2 r)"
    using assms(1) by (simp add: proposal_compute_def assms(3) r await_pair resolve_def)
  with f show ?thesis
    by blast
qed

lemma set_slice0: "set (slice0 xs n) \<subseteq> set xs"
  by (cases n) (auto simp: Let_def dest: in_set_takeD)

lemma set_proposalIds_asc:
  "set (proposalIds_asc imp ps limit startAfter) \<subseteq> Number imp ` set (map fst ps)"
  unfolding proposalIds_asc_def using set_slice0 by (fastforce simp: set_sort_by)

lemma listProposals_compute_none:
  assumes "resolveProposals env = (Inr (None, v2), lookups)"
  shows "listProposals_compute imp env limit startAfter flt = (Inr [], lookups)"
  using assms by (simp add: listProposals_compute_def await_pair resolve_def)

lemma listProposals_compute_some:
  assumes "resolveProposals env = (Inr (Some ps, v2), lookups)"
    and "\<forall>k\<in>set (map fst ps). \<not> invalid_id imp (Some k) \<and> toString imp (Number imp k) = k"
  shows "\<exists>rs rest.
    listProposals_compute imp env limit startAfter flt =
      (Inr (filter (\<lambda>r. if flt = Some ''passed'' then passedFilter r else True) rs), lookups @ rest) \<and>
    list_all2 (\<lambda>i r. id' r = i \<and>
                 (\<exists>p. map_of ps (toString imp i) = Some p \<and> proposal r = updateStatus imp env p) \<and>
                 timestampsOn imp env v2 r)
      (proposalIds_asc imp ps limit startAfter) rs \<and>
    set rest =
      (\<Union>r\<in>set rs. set (snd (proposalCreatedAt_compute imp env (Some (toString imp (id' r))))) \<union>
                     set (timestampLog imp env v2 r))"
proof -
  have ok: "\<forall>i\<in>set (proposalIds_asc imp ps limit startAfter).
      \<not> invalid_id imp (Some (toString imp i)) \<and> map_of ps (toString imp i) \<noteq> None"
  proof
    fix i assume "i \<in> set (proposalIds_asc imp ps limit startAfter)"
    with set_proposalIds_asc obtain k where k: "k \<in> set (map fst ps)" "i = Number imp k"
      by blast
    with assms(2) have "toString imp i = k" "\<not> invalid_id imp (Some k)"
      by auto
    with k(1) show "\<not> invalid_id imp (Some (toString imp i)) \<and> map_of ps (toString imp i) \<noteq> None"
      by (simp add: map_of_eq_None_iff)
  qed
  obtain rs where rs: "intoResponses imp env ps v2 (proposalIds_asc imp ps limit startAfter) =
      (Inr rs,
       concat (map (\<lambda>r. snd (proposalCreatedAt_compute imp env (Some (toString imp (id' r)))) @
                         timestampLog imp env v2 r) rs))"
    and all: "list_all2 (\<lambda>i r. id' r = i \<and>
                 (\<exists>p. map_of ps (toString imp i) = Some p \<and> proposal r = updateStatus imp env p) \<and>
                 timestampsOn imp env v2 r)
      (proposalIds_asc imp ps limit startAfter) rs"
    using intoResponses_full [OF ok, of env v2] by blast
  have f: "fst (resolveProposals env) = Inr (Some ps, v2)" and s: "snd (resolveProposals env) = lookups"
    by (simp_all add: assms(1))
  have 1: "listProposals_compute imp env limit startAfter flt =
      (Inr (filter (\<lambda>r. if flt = Some ''passed'' then passedFilter r else True) rs),
       lookups @ concat (map (\<lambda>r. snd (proposalCreatedAt_compute imp env (Some (toString imp (id' r)))) @
                         timestampLog imp env v2 r) rs))"
    using listProposals_resolved [OF f rs, of flt] by (simp add: s)
  have 2: "set (concat (map (\<lambda>r. snd (proposalCreatedAt_compute imp env (Some (toString imp (id' r)))) @
                         timestampLog imp env v2 r) rs)) =
      (\<Union>r\<in>set rs. set (snd (proposalCreatedAt_compute imp env (Some (toString imp (id' r))))) \<union>
                     set (timestampLog imp env v2 r))"
    by simp
  from 1 all 2 show ?thesis
    by (intro exI conjI)
qed


text \<open>
  C2. The single-proposal and the list-proposals formulas resolve the stored record by an
  ordered fallback. The transformation index is consulted first (the name \<open>proposal:<id>\<close>
  or the map \<open>proposal\<close>); the raw key \<open>proposals_v2\<close> is consulted only if the index gave
  nothing, and the raw key \<open>proposals\<close> only if that gave nothing too; the first source
  with a match gives the record. The flag \<open>v2\<close> holds exactly when the record came from
  \<open>proposals_v2\<close>, and it chooses the raw key of the timestamp lookups of the response:
  after the lookups of the record and those of the creation date, the formula makes
  exactly the calls of \<open>timestampLog\<close>, which looks up each of \<open>executedAt\<close>, \<open>closedAt\<close>
  and \<open>completedAt\<close> in the transformations of the proposal first and then, if that gave
  nothing, in the raw writes at \<open>proposals_v2\<close> when \<open>v2\<close> holds and at \<open>proposals\<close>
  otherwise, under the number of the proposal; and the three timestamps of the response
  are the dates found there (\<open>timestampsOn\<close>). The id argument is valid, and so is the
  string of its number, which the formula passes on to the creation date; every key of a
  listed map is a valid id and the string of its own number. The responses of a listing
  are computed concurrently, so of their calls only the set is stated, not the order.
\<close>

theorem ordered_fallback:
  assumes "\<not> invalid_id imp (Some idS)"
    and "\<not> invalid_id imp (Some (toString imp (Number imp idS)))"
  shows
  "(let T = getTransformationMatch_proposal env (contractAddress env) (''proposal:'' @ idS);
        V2 = get_proposal env (contractAddress env) [KStr ''proposals_v2'', KNum (Number imp idS)];
        V1 = get_proposal env (contractAddress env) [KStr ''proposals'', KNum (Number imp idS)];
        lookups =
          GetTransformationMatch (contractAddress env) (''proposal:'' @ idS) #
          (if T = None
           then Get (contractAddress env) [KStr ''proposals_v2'', KNum (Number imp idS)] #
                (if V2 = None
                 then [Get (contractAddress env) [KStr ''proposals'', KNum (Number imp idS)]]
                 else [])
           else []);
        chosen = (case T of Some p \<Rightarrow> Some p | None \<Rightarrow> (case V2 of Some p \<Rightarrow> Some p | None \<Rightarrow> V1));
        v2 = (T = None \<and> V2 \<noteq> None)
    in case chosen of
         None \<Rightarrow> proposal_compute imp env (Some idS) = (Inr None, lookups)
       | Some p \<Rightarrow>
           (\<exists>r. proposal_compute imp env (Some idS) =
                  (Inr (Some r),
                   lookups @
                   snd (proposalCreatedAt_compute imp env (Some (toString imp (Number imp idS)))) @
                   timestampLog imp env v2 r) \<and>
                id' r = Number imp idS \<and> proposal r = updateStatus imp env p \<and>
                timestampsOn imp env v2 r)) \<and>
   (let T = getTransformationMap_proposals env (contractAddress env) ''proposal'';
        V2 = getMap_proposals env (contractAddress env) [KStr ''proposals_v2''];
        V1 = getMap_proposals env (contractAddress env) [KStr ''proposals''];
        lookups =
          GetTransformationMap (contractAddress env) ''proposal'' #
          (if T = None
           then GetMap (contractAddress env) [KStr ''proposals_v2''] #
                (if V2 = None then [GetMap (contractAddress env) [KStr ''proposals'']] else [])
           else []);
        chosen = (case T of Some ps \<Rightarrow> Some ps | None \<Rightarrow> (case V2 of Some ps \<Rightarrow> Some ps | None \<Rightarrow> V1));
        v2 = (T = None \<and> V2 \<noteq> None)
    in case chosen of
         None \<Rightarrow> listProposals_compute imp env limit startAfter flt = (Inr [], lookups)
       | Some ps \<Rightarrow>
           (\<forall>k\<in>set (map fst ps). \<not> invalid_id imp (Some k) \<and> toString imp (Number imp k) = k) \<longrightarrow>
           (\<exists>rs rest.
              listProposals_compute imp env limit startAfter flt =
                (Inr (filter (\<lambda>r. if flt = Some ''passed'' then passedFilter r else True) rs),
                 lookups @ rest) \<and>
              list_all2 (\<lambda>i r. id' r = i \<and>
                           (\<exists>p. map_of ps (toString imp i) = Some p \<and>
                                proposal r = updateStatus imp env p) \<and>
                           timestampsOn imp env v2 r)
                (proposalIds_asc imp ps limit startAfter) rs \<and>
              set rest =
                (\<Union>r\<in>set rs. set (snd (proposalCreatedAt_compute imp env (Some (toString imp (id' r))))) \<union>
                               set (timestampLog imp env v2 r))))"
proof -
  define T where "T = getTransformationMatch_proposal env (contractAddress env) (''proposal:'' @ idS)"
  define V2 where "V2 = get_proposal env (contractAddress env) [KStr ''proposals_v2'', KNum (Number imp idS)]"
  define V1 where "V1 = get_proposal env (contractAddress env) [KStr ''proposals'', KNum (Number imp idS)]"
  define lookups where "lookups =
          GetTransformationMatch (contractAddress env) (''proposal:'' @ idS) #
          (if T = None
           then Get (contractAddress env) [KStr ''proposals_v2'', KNum (Number imp idS)] #
                (if V2 = None
                 then [Get (contractAddress env) [KStr ''proposals'', KNum (Number imp idS)]]
                 else [])
           else [])"
  define chosen where
    "chosen = (case T of Some p \<Rightarrow> Some p | None \<Rightarrow> (case V2 of Some p \<Rightarrow> Some p | None \<Rightarrow> V1))"
  define v2 where "v2 = (T = None \<and> V2 \<noteq> None)"
  have R: "resolveProposal imp env idS = (Inr (chosen, v2), lookups)"
    unfolding resolveProposal_eq chosen_def v2_def lookups_def T_def V2_def V1_def
    by (simp split: option.splits)
  have S: "case chosen of
         None \<Rightarrow> proposal_compute imp env (Some idS) = (Inr None, lookups)
       | Some p \<Rightarrow>
           (\<exists>r. proposal_compute imp env (Some idS) =
                  (Inr (Some r),
                   lookups @
                   snd (proposalCreatedAt_compute imp env (Some (toString imp (Number imp idS)))) @
                   timestampLog imp env v2 r) \<and>
                id' r = Number imp idS \<and> proposal r = updateStatus imp env p \<and>
                timestampsOn imp env v2 r)"
  proof (cases chosen)
    case None
    with proposal_compute_none [OF assms(1), of env v2 lookups] R show ?thesis
      by simp
  next
    case (Some p)
    with proposal_compute_some [OF assms, of env p v2 lookups] R show ?thesis
      by simp
  qed
  define T' where "T' = getTransformationMap_proposals env (contractAddress env) ''proposal''"
  define V2' where "V2' = getMap_proposals env (contractAddress env) [KStr ''proposals_v2'']"
  define V1' where "V1' = getMap_proposals env (contractAddress env) [KStr ''proposals'']"
  define lookups' where "lookups' =
          GetTransformationMap (contractAddress env) ''proposal'' #
          (if T' = None
           then GetMap (contractAddress env) [KStr ''proposals_v2''] #
                (if V2' = None then [GetMap (contractAddress env) [KStr ''proposals'']] else [])
           else [])"
  define chosen' where
    "chosen' = (case T' of Some ps \<Rightarrow> Some ps | None \<Rightarrow> (case V2' of Some ps \<Rightarrow> Some ps | None \<Rightarrow> V1'))"
  define v2' where "v2' = (T' = None \<and> V2' \<noteq> None)"
  have R': "resolveProposals env = (Inr (chosen', v2'), lookups')"
    unfolding resolveProposals_eq chosen'_def v2'_def lookups'_def T'_def V2'_def V1'_def
    by (simp split: option.splits)
  have L: "case chosen' of
         None \<Rightarrow> listProposals_compute imp env limit startAfter flt = (Inr [], lookups')
       | Some ps \<Rightarrow>
           (\<forall>k\<in>set (map fst ps). \<not> invalid_id imp (Some k) \<and> toString imp (Number imp k) = k) \<longrightarrow>
           (\<exists>rs rest.
              listProposals_compute imp env limit startAfter flt =
                (Inr (filter (\<lambda>r. if flt = Some ''passed'' then passedFilter r else True) rs),
                 lookups' @ rest) \<and>
              list_all2 (\<lambda>i r. id' r = i \<and>
                           (\<exists>p. map_of ps (toString imp i) = Some p \<and>
                                proposal r = updateStatus imp env p) \<and>
                           timestampsOn imp env v2' r)
                (proposalIds_asc imp ps limit startAfter) rs \<and>
              set rest =
                (\<Union>r\<in>set rs. set (snd (proposalCreatedAt_compute imp env (Some (toString imp (id' r))))) \<union>
                               set (timestampLog imp env v2' r)))"
  proof (cases chosen')
    case None
    with listProposals_compute_none [of env v2' lookups' imp limit startAfter flt] R' show ?thesis
      by simp
  next
    case (Some ps)
    have "resolveProposals env = (Inr (Some ps, v2'), lookups')"
      using R' Some by simp
    from listProposals_compute_some [OF this, of imp limit startAfter flt]
    show ?thesis
      unfolding Some option.case by (rule impI)
  qed
  show ?thesis
    using S L
    unfolding Let_def lookups_def chosen_def v2_def T_def V2_def V1_def
      lookups'_def chosen'_def v2'_def T'_def V2'_def V1'_def
    by (rule conjI)
qed

lemma ex_valid_arg_1: "\<not> invalid_id ex_imports (Some ''1'')"
  by (simp add: invalid_id_def ex_imports_def ex_Number_def)

lemma ex_env_raw_simps:
  "contractAddress (ex_env_raw schema) = ''juno1proposalmodule''"
  "getTransformationMatch_proposal (ex_env_raw schema) a n = None"
  "get_proposal (ex_env_raw schema) a path =
     (if path = [KStr schema, KNum (Finite 1)] then Some (ex_with_status Executed) else None)"
  "getDateFirstTransformed (ex_env_raw schema) a n w = None"
  "getDateKeyFirstSet (ex_env_raw schema) a path = None"
  by (simp_all add: ex_env_raw_def ex_env_def)

lemma ex_env_raw_createdAt:
  "snd (proposalCreatedAt_compute ex_imports (ex_env_raw schema) (Some ''1'')) =
     [GetDateFirstTransformed ''juno1proposalmodule'' ''proposal:1'' None,
      GetDateKeyFirstSet ''juno1proposalmodule'' [KStr ''proposals_v2'', KNum (Finite 1)],
      GetDateKeyFirstSet ''juno1proposalmodule'' [KStr ''proposals'', KNum (Finite 1)]]"
proof -
  have n: "Number ex_imports ''1'' = Finite 1"
    by (simp add: ex_imports_def ex_Number_def)
  show ?thesis
    using ex_valid_arg_1
    by (simp add: proposalCreatedAt_compute_def ex_env_raw_simps n await_def nullish_def call_def
        resolve_def)
qed

lemma ex_env_raw_executed:
  assumes "proposal r = ex_with_status Executed" and "id' r = Finite 1"
    and "timestampsOn ex_imports (ex_env_raw schema) (schema = ''proposals_v2'') r"
    and "schema = ''proposals_v2'' \<or> schema = ''proposals''"
  shows "executedAt r = Some ''1970-01-01T00:00:03.000Z''"
    and "completedAt r = Some ''1970-01-01T00:00:03.000Z''"
    and "timestampLog ex_imports (ex_env_raw schema) (schema = ''proposals_v2'') r =
      [GetDateFirstTransformed ''juno1proposalmodule'' ''proposal:1''
         (Some (StatusIn [''executed'', ''execution_failed''])),
       GetDateKeyFirstSetWithValueMatch ''juno1proposalmodule'' [KStr schema, KNum (Finite 1)]
         (StatusIn [''executed'', ''execution_failed''])]"
proof -
  have s: "status (proposal r) = Executed"
    by (simp add: assms(1) status_ex_with_status)
  have f: "firstStatusFact ex_imports (ex_env_raw schema) (Finite 1) (schema = ''proposals_v2'')
      (StatusIn [''executed'', ''execution_failed'']) = Some ''1970-01-01T00:00:03.000Z''"
    using assms(4)
    by (auto simp: firstStatusFact_def ex_env_raw_def ex_env_def ex_imports_def rawPath_def
        ex_toISOString_def)
  have t: "toString ex_imports (Finite 1) = ''1''"
    by (simp add: ex_imports_def ex_toString_def)
  show e: "executedAt r = Some ''1970-01-01T00:00:03.000Z''"
    using assms(3) by (simp add: timestampsOn_def s assms(2) f)
  have c: "closedAt r = None"
    using assms(3) by (simp add: timestampsOn_def s)
  have j: "js_truthy (js_or (executedAt r) (closedAt r))"
    "js_or (executedAt r) (closedAt r) = Some ''1970-01-01T00:00:03.000Z''"
    by (simp_all add: e c js_or_def js_truthy_def)
  have "completedAt r =
      (if status (proposal r) = Open then None
       else if js_truthy (js_or (executedAt r) (closedAt r)) then js_or (executedAt r) (closedAt r)
       else firstStatusFact ex_imports (ex_env_raw schema) (id' r) (schema = ''proposals_v2'')
              (StatusIn [''passed'', ''rejected'']))"
    using assms(3) unfolding timestampsOn_def by (elim conjE)
  then show "completedAt r = Some ''1970-01-01T00:00:03.000Z''"
    unfolding j s by (simp add: js_truthy_def)
  show "timestampLog ex_imports (ex_env_raw schema) (schema = ''proposals_v2'') r =
      [GetDateFirstTransformed ''juno1proposalmodule'' ''proposal:1''
         (Some (StatusIn [''executed'', ''execution_failed''])),
       GetDateKeyFirstSetWithValueMatch ''juno1proposalmodule'' [KStr schema, KNum (Finite 1)]
         (StatusIn [''executed'', ''execution_failed''])]"
    using assms(4)
    by (auto simp: timestampLog_def s e c js_or_def js_truthy_def statusDateLog_def assms(2) t
        ex_env_raw_simps)
qed

text \<open>
  With raw writes under \<open>proposals\<close> only, the three lookups are made in order and the
  execution date is looked up, and found, under \<open>proposals\<close>; with raw writes under
  \<open>proposals_v2\<close> only, the third lookup is not made and the execution date is looked up
  under \<open>proposals_v2\<close>. The listing of the four stored proposals consults the
  transformation map only.
\<close>

theorem ordered_fallback_witness:
  "(\<exists>r. proposal_compute ex_imports (ex_env_raw ''proposals'') (Some ''1'') =
      (Inr (Some r),
       [GetTransformationMatch ''juno1proposalmodule'' ''proposal:1'',
        Get ''juno1proposalmodule'' [KStr ''proposals_v2'', KNum (Finite 1)],
        Get ''juno1proposalmodule'' [KStr ''proposals'', KNum (Finite 1)],
        GetDateFirstTransformed ''juno1proposalmodule'' ''proposal:1'' None,
        GetDateKeyFirstSet ''juno1proposalmodule'' [KStr ''proposals_v2'', KNum (Finite 1)],
        GetDateKeyFirstSet ''juno1proposalmodule'' [KStr ''proposals'', KNum (Finite 1)],
        GetDateFirstTransformed ''juno1proposalmodule'' ''proposal:1''
          (Some (StatusIn [''executed'', ''execution_failed''])),
        GetDateKeyFirstSetWithValueMatch ''juno1proposalmodule'' [KStr ''proposals'', KNum (Finite 1)]
          (StatusIn [''executed'', ''execution_failed''])]) \<and>
      executedAt r = Some ''1970-01-01T00:00:03.000Z'' \<and>
      completedAt r = Some ''1970-01-01T00:00:03.000Z'') \<and>
   (\<exists>r. proposal_compute ex_imports (ex_env_raw ''proposals_v2'') (Some ''1'') =
      (Inr (Some r),
       [GetTransformationMatch ''juno1proposalmodule'' ''proposal:1'',
        Get ''juno1proposalmodule'' [KStr ''proposals_v2'', KNum (Finite 1)],
        GetDateFirstTransformed ''juno1proposalmodule'' ''proposal:1'' None,
        GetDateKeyFirstSet ''juno1proposalmodule'' [KStr ''proposals_v2'', KNum (Finite 1)],
        GetDateKeyFirstSet ''juno1proposalmodule'' [KStr ''proposals'', KNum (Finite 1)],
        GetDateFirstTransformed ''juno1proposalmodule'' ''proposal:1''
          (Some (StatusIn [''executed'', ''execution_failed''])),
        GetDateKeyFirstSetWithValueMatch ''juno1proposalmodule'' [KStr ''proposals_v2'', KNum (Finite 1)]
          (StatusIn [''executed'', ''execution_failed''])]) \<and>
      executedAt r = Some ''1970-01-01T00:00:03.000Z'' \<and>
      completedAt r = Some ''1970-01-01T00:00:03.000Z'') \<and>
   (\<exists>rs rest. listProposals_compute ex_imports ex_env_list None None None =
      (Inr rs, GetTransformationMap ''juno1proposalmodule'' ''proposal'' # rest) \<and>
      map id' rs = [Finite 1, Finite 3, Finite 5, Finite 7])"
proof -
  have n: "Number ex_imports ''1'' = Finite 1"
    by (simp add: ex_imports_def ex_Number_def)
  have t: "toString ex_imports (Finite 1) = ''1''"
    by (simp add: ex_imports_def ex_toString_def)
  have v: "\<not> invalid_id ex_imports (Some (toString ex_imports (Number ex_imports ''1'')))"
    unfolding n by (rule ex_valid_1)
  have u: "updateStatus ex_imports env (ex_with_status Executed) = ex_with_status Executed" for env
    by (rule ex_updateStatus_stored) simp_all
  note T1 = ordered_fallback [OF ex_valid_arg_1 v, of "ex_env_raw ''proposals''", THEN conjunct1,
      unfolded Let_def]
  note T2 = ordered_fallback [OF ex_valid_arg_1 v, of "ex_env_raw ''proposals_v2''", THEN conjunct1,
      unfolded Let_def]
  obtain r1 where r1: "proposal_compute ex_imports (ex_env_raw ''proposals'') (Some ''1'') =
      (Inr (Some r1),
       [GetTransformationMatch ''juno1proposalmodule'' ''proposal:1'',
        Get ''juno1proposalmodule'' [KStr ''proposals_v2'', KNum (Finite 1)],
        Get ''juno1proposalmodule'' [KStr ''proposals'', KNum (Finite 1)]] @
       snd (proposalCreatedAt_compute ex_imports (ex_env_raw ''proposals'') (Some ''1'')) @
       timestampLog ex_imports (ex_env_raw ''proposals'') (''proposals'' = ''proposals_v2'') r1)"
    and f1: "id' r1 = Finite 1" "proposal r1 = ex_with_status Executed"
      "timestampsOn ex_imports (ex_env_raw ''proposals'') (''proposals'' = ''proposals_v2'') r1"
    using T1 by (auto simp: n t u ex_env_raw_simps)
  obtain r2 where r2: "proposal_compute ex_imports (ex_env_raw ''proposals_v2'') (Some ''1'') =
      (Inr (Some r2),
       [GetTransformationMatch ''juno1proposalmodule'' ''proposal:1'',
        Get ''juno1proposalmodule'' [KStr ''proposals_v2'', KNum (Finite 1)]] @
       snd (proposalCreatedAt_compute ex_imports (ex_env_raw ''proposals_v2'') (Some ''1'')) @
       timestampLog ex_imports (ex_env_raw ''proposals_v2'') (''proposals_v2'' = ''proposals_v2'') r2)"
    and f2: "id' r2 = Finite 1" "proposal r2 = ex_with_status Executed"
      "timestampsOn ex_imports (ex_env_raw ''proposals_v2'') (''proposals_v2'' = ''proposals_v2'') r2"
    using T2 by (auto simp: n t u ex_env_raw_simps)
  have W1: "\<exists>r. proposal_compute ex_imports (ex_env_raw ''proposals'') (Some ''1'') =
      (Inr (Some r),
       [GetTransformationMatch ''juno1proposalmodule'' ''proposal:1'',
        Get ''juno1proposalmodule'' [KStr ''proposals_v2'', KNum (Finite 1)],
        Get ''juno1proposalmodule'' [KStr ''proposals'', KNum (Finite 1)],
        GetDateFirstTransformed ''juno1proposalmodule'' ''proposal:1'' None,
        GetDateKeyFirstSet ''juno1proposalmodule'' [KStr ''proposals_v2'', KNum (Finite 1)],
        GetDateKeyFirstSet ''juno1proposalmodule'' [KStr ''proposals'', KNum (Finite 1)],
        GetDateFirstTransformed ''juno1proposalmodule'' ''proposal:1''
          (Some (StatusIn [''executed'', ''execution_failed''])),
        GetDateKeyFirstSetWithValueMatch ''juno1proposalmodule'' [KStr ''proposals'', KNum (Finite 1)]
          (StatusIn [''executed'', ''execution_failed''])]) \<and>
      executedAt r = Some ''1970-01-01T00:00:03.000Z'' \<and>
      completedAt r = Some ''1970-01-01T00:00:03.000Z''"
    using r1 ex_env_raw_executed [OF f1(2) f1(1) f1(3)]
    by (intro exI [of _ r1]) (simp add: ex_env_raw_createdAt)
  have W2: "\<exists>r. proposal_compute ex_imports (ex_env_raw ''proposals_v2'') (Some ''1'') =
      (Inr (Some r),
       [GetTransformationMatch ''juno1proposalmodule'' ''proposal:1'',
        Get ''juno1proposalmodule'' [KStr ''proposals_v2'', KNum (Finite 1)],
        GetDateFirstTransformed ''juno1proposalmodule'' ''proposal:1'' None,
        GetDateKeyFirstSet ''juno1proposalmodule'' [KStr ''proposals_v2'', KNum (Finite 1)],
        GetDateKeyFirstSet ''juno1proposalmodule'' [KStr ''proposals'', KNum (Finite 1)],
        GetDateFirstTransformed ''juno1proposalmodule'' ''proposal:1''
          (Some (StatusIn [''executed'', ''execution_failed''])),
        GetDateKeyFirstSetWithValueMatch ''juno1proposalmodule'' [KStr ''proposals_v2'', KNum (Finite 1)]
          (StatusIn [''executed'', ''execution_failed''])]) \<and>
      executedAt r = Some ''1970-01-01T00:00:03.000Z'' \<and>
      completedAt r = Some ''1970-01-01T00:00:03.000Z''"
    using r2 ex_env_raw_executed [OF f2(2) f2(1) f2(3)]
    by (intro exI [of _ r2]) (simp add: ex_env_raw_createdAt)
  have k: "\<forall>k\<in>set (map fst ex_proposals).
      \<not> invalid_id ex_imports (Some k) \<and> toString ex_imports (Number ex_imports k) = k"
    by (simp add: ex_proposals_def invalid_id_def ex_imports_def ex_Number_def ex_toString_def)
  have ids: "proposalIds_asc ex_imports ex_proposals None None = [Finite 1, Finite 3, Finite 5, Finite 7]"
    unfolding proposalIds_asc_page [OF ex_keysOf ex_readsAs(1) ex_readsAs(5)] pageAfter_def ex_sorted_ids
    by (simp add: cutTo_def)
  note T3 = ordered_fallback [OF ex_valid_arg_1 v, of ex_env_list None None None, THEN conjunct2,
      unfolded Let_def]
  have W3: "\<exists>rs rest. listProposals_compute ex_imports ex_env_list None None None =
      (Inr rs, GetTransformationMap ''juno1proposalmodule'' ''proposal'' # rest) \<and>
      map id' rs = [Finite 1, Finite 3, Finite 5, Finite 7]"
  proof -
    have g1: "contractAddress ex_env_list = ''juno1proposalmodule''"
      by (simp add: ex_env_list_def ex_env_def)
    have g2: "getTransformationMap_proposals ex_env_list ''juno1proposalmodule'' ''proposal'' =
        Some ex_proposals"
      by (simp add: ex_env_list_def ex_env_def)
    from T3 [unfolded g1 g2 option.case, THEN mp, OF k] obtain rs rest where
      a: "listProposals_compute ex_imports ex_env_list None None None =
        (Inr rs, GetTransformationMap ''juno1proposalmodule'' ''proposal'' # rest)"
      and b: "list_all2 (\<lambda>i r. id' r = i \<and>
                 (\<exists>p. map_of ex_proposals (toString ex_imports i) = Some p \<and>
                      proposal r = updateStatus ex_imports ex_env_list p) \<and>
                 timestampsOn ex_imports ex_env_list False r)
            (proposalIds_asc ex_imports ex_proposals None None) rs"
      by auto
    from list_all2_ids [OF b] have m: "map id' rs = [Finite 1, Finite 3, Finite 5, Finite 7]"
      by (simp add: ids)
    from a m show ?thesis
      by (intro exI conjI)
  qed
  from W1 W2 W3 show ?thesis
    by (intro conjI)
qed

section \<open>Argument validation\<close>

text \<open>
  The single-proposal formula and the vote listing reject a missing, non-numeric or
  negative id with a message naming the field, and the log of accessor calls is empty.
\<close>

lemma proposal_invalid_id:
  "invalid_id imp arg \<Longrightarrow> proposal_compute imp env arg = (Inl ''missing `id`'', [])"
  by (simp add: proposal_compute_def throw_def)

lemma listVotes_invalid_id:
  "invalid_id imp arg \<Longrightarrow>
   listVotes_compute imp env arg limit startAfter = (Inl ''missing `proposalId`'', [])"
  by (simp add: listVotes_compute_def throw_def)

text \<open>The single-vote formula rejects a missing or empty \<open>proposalId\<close> or \<open>voter\<close>.\<close>

lemma vote_missing:
  "proposalId = None \<or> proposalId = Some [] \<Longrightarrow>
   vote_compute imp env proposalId voter_arg = (Inl ''missing `proposalId`'', [])"
  "proposalId = Some p \<Longrightarrow> p \<noteq> [] \<Longrightarrow> voter_arg = None \<or> voter_arg = Some [] \<Longrightarrow>
   vote_compute imp env proposalId voter_arg = (Inl ''missing `voter`'', [])"
  by (auto simp: vote_compute_def throw_def)

lemma vote_present_no_error:
  "p \<noteq> [] \<Longrightarrow> v \<noteq> [] \<Longrightarrow> \<exists>r. fst (vote_compute imp env (Some p) (Some v)) = Inr r"
  by (simp add: vote_compute_def fst_await fst_call fst_resolve split: option.splits)

text \<open>
  C3. Every lifecycle formula with a required id argument should reject a missing,
  non-numeric or negative id before any accessor is called. The single-vote formula does
  not: with \<open>proposalId = "abc"\<close> or \<open>"-1"\<close> it looks up the transformation
  \<open>voteCast:<voter>:<proposalId>\<close> and the raw ballot at the number \<open>NaN\<close> or \<open>-1\<close>, and
  returns no vote, where the vote listing raises \<open>missing `proposalId`\<close> on the same
  arguments.
\<close>

theorem vote_accepts_malformed_proposalId:
  "vote_compute ex_imports ex_env (Some ''abc'') (Some ''juno1voter'') =
     (Inr None,
      [GetTransformationMatch ''juno1proposalmodule'' ''voteCast:juno1voter:abc'',
       Get ''juno1proposalmodule'' [KStr ''ballots'', KNum NaN, KStr ''juno1voter'']]) \<and>
   vote_compute ex_imports ex_env (Some ''-1'') (Some ''juno1voter'') =
     (Inr None,
      [GetTransformationMatch ''juno1proposalmodule'' ''voteCast:juno1voter:-1'',
       Get ''juno1proposalmodule'' [KStr ''ballots'', KNum (Finite (- 1)), KStr ''juno1voter'']]) \<and>
   listVotes_compute ex_imports ex_env (Some ''abc'') None None = (Inl ''missing `proposalId`'', []) \<and>
   listVotes_compute ex_imports ex_env (Some ''-1'') None None = (Inl ''missing `proposalId`'', [])"
  by (simp add: vote_compute_def listVotes_compute_def invalid_id_def await_def call_def resolve_def
      throw_def ex_env_def ex_imports_def ex_Number_def)


section \<open>Listing votes\<close>

lemma Promise_all_calls:
  "fst (Promise_all (map (\<lambda>v. call (a v) (r v)) vs)) = Inr (map r vs)"
  by (induction vs) (simp_all add: Promise_all_def call_def)

lemma map_zip_index:
  assumes "\<And>k. k < length xs \<Longrightarrow> F (xs ! k) k = G (xs ! k)"
  shows "map (\<lambda>(v, k). F v k) (zip xs [0 ..< length xs]) = map G xs"
  using assms by (intro nth_equalityI) simp_all

lemma length_sort_by: "length (sort_by cmp xs) = length xs"
proof -
  have "length (insort_by cmp x ys) = Suc (length ys)" for x ys
    by (induction ys) simp_all
  then show ?thesis
    by (induction xs) (simp_all add: sort_by_def)
qed

lemma fst_votesFromBallots:
  "fst (votesFromBallots imp env pid limit startAfter) =
     Inr (let ballots = (case getMap_ballots env (contractAddress env)
                                [KStr ''ballots'', KNum (Number imp pid)] of
                           None \<Rightarrow> [] | Some bs \<Rightarrow> bs);
              voters = votersPage imp ballots limit startAfter
          in map (\<lambda>v. \<lparr>voter = v, vote = map_of ballots v,
                       votedAt =
                         (if length voters \<le> 50
                          then map_option (toISOString imp)
                                 (getDateKeyModified env (contractAddress env)
                                    [KStr ''ballots'', KNum (Number imp pid), KStr v])
                          else None)\<rparr>)
               voters)"
proof -
  define ballots where "ballots = (case getMap_ballots env (contractAddress env)
                                [KStr ''ballots'', KNum (Number imp pid)] of
                           None \<Rightarrow> [] | Some bs \<Rightarrow> bs)"
  define voters where "voters = votersPage imp ballots limit startAfter"
  define dates where "dates = map (\<lambda>v. getDateKeyModified env (contractAddress env)
                                    [KStr ''ballots'', KNum (Number imp pid), KStr v]) voters"
  have 1: "fst (votesFromBallots imp env pid limit startAfter) =
    Inr (map (\<lambda>(v, index).
                           \<lparr>voter = v, vote = map_of ballots v,
                            votedAt = (case (if length voters \<le> 50 then Some dates else None) of
                                         None \<Rightarrow> None
                                       | Some ds \<Rightarrow>
                                           if index < length ds
                                           then map_option (toISOString imp) (ds ! index)
                                           else None)\<rparr>)
                      (zip voters [0 ..< length voters]))"
    unfolding votesFromBallots_def
    by (simp add: fst_await fst_call fst_resolve Let_def Promise_all_calls
        ballots_def [symmetric] voters_def [symmetric] dates_def [symmetric])
  have 2: "map (\<lambda>(v, index).
                           \<lparr>voter = v, vote = map_of ballots v,
                            votedAt = (case (if length voters \<le> 50 then Some dates else None) of
                                         None \<Rightarrow> None
                                       | Some ds \<Rightarrow>
                                           if index < length ds
                                           then map_option (toISOString imp) (ds ! index)
                                           else None)\<rparr>)
                      (zip voters [0 ..< length voters]) =
     map (\<lambda>v. \<lparr>voter = v, vote = map_of ballots v,
                       votedAt =
                         (if length voters \<le> 50
                          then map_option (toISOString imp)
                                 (getDateKeyModified env (contractAddress env)
                                    [KStr ''ballots'', KNum (Number imp pid), KStr v])
                          else None)\<rparr>)
               voters"
    by (rule map_zip_index) (simp add: dates_def)
  show ?thesis
    unfolding 1 2 by (simp add: Let_def ballots_def voters_def)
qed

text \<open>
  C6. In the raw fallback of the vote listing (no vote transformation matches), the votes
  returned are those of the filtered and truncated page of voters; when the page has more
  than 50 voters, \<open>votedAt\<close> is absent on every vote; when it has at most 50, the
  \<open>votedAt\<close> of each vote is the last-modified date of that voter's ballot.
\<close>

theorem votedAt_cutoff:
  assumes "\<not> invalid_id imp (Some pid)"
    and "getTransformationMatches_voteCast env (contractAddress env) (''voteCast:*:'' @ pid)
           (case startAfter of
              None \<Rightarrow> None
            | Some s \<Rightarrow> if s = [] then None else Some (''voteCast:'' @ s @ '':'' @ pid))
           (case limit of
              None \<Rightarrow> None
            | Some l \<Rightarrow> if l = [] then None else Some (limitNum imp limit)) = None"
  shows "\<exists>vs t. listVotes_compute imp env (Some pid) limit startAfter = (Inr vs, t) \<and>
    map vi_voter vs =
      votersPage imp
        (case getMap_ballots env (contractAddress env) [KStr ''ballots'', KNum (Number imp pid)] of
           None \<Rightarrow> [] | Some bs \<Rightarrow> bs)
        limit startAfter \<and>
    (50 < length vs \<longrightarrow> (\<forall>v\<in>set vs. vi_votedAt v = None)) \<and>
    (length vs \<le> 50 \<longrightarrow>
       (\<forall>v\<in>set vs. vi_votedAt v =
          map_option (toISOString imp)
            (getDateKeyModified env (contractAddress env)
               [KStr ''ballots'', KNum (Number imp pid), KStr (vi_voter v)])))"
proof -
  define ballots where "ballots = (case getMap_ballots env (contractAddress env)
                                [KStr ''ballots'', KNum (Number imp pid)] of
                           None \<Rightarrow> [] | Some bs \<Rightarrow> bs)"
  define voters where "voters = votersPage imp ballots limit startAfter"
  define vs where "vs = map (\<lambda>v. \<lparr>vi_voter = v, vi_vote = map_of ballots v,
                       vi_votedAt =
                         (if length voters \<le> 50
                          then map_option (toISOString imp)
                                 (getDateKeyModified env (contractAddress env)
                                    [KStr ''ballots'', KNum (Number imp pid), KStr v])
                          else None)\<rparr>)
               voters"
  have "fst (listVotes_compute imp env (Some pid) limit startAfter) = Inr vs"
    using assms
    by (simp add: listVotes_compute_def fst_await fst_call fst_resolve fst_votesFromBallots Let_def
        vs_def voters_def ballots_def o_def)
  then have 1: "listVotes_compute imp env (Some pid) limit startAfter =
      (Inr vs, snd (listVotes_compute imp env (Some pid) limit startAfter))"
    by (metis prod.collapse)
  have 2: "map vi_voter vs = votersPage imp
        (case getMap_ballots env (contractAddress env) [KStr ''ballots'', KNum (Number imp pid)] of
           None \<Rightarrow> [] | Some bs \<Rightarrow> bs)
        limit startAfter"
    by (simp add: vs_def voters_def ballots_def o_def)
  have len: "length vs = length voters"
    by (simp add: vs_def)
  have 3: "50 < length vs \<longrightarrow> (\<forall>v\<in>set vs. vi_votedAt v = None)"
    unfolding len by (auto simp: vs_def)
  have 4: "length vs \<le> 50 \<longrightarrow>
       (\<forall>v\<in>set vs. vi_votedAt v =
          map_option (toISOString imp)
            (getDateKeyModified env (contractAddress env)
               [KStr ''ballots'', KNum (Number imp pid), KStr (vi_voter v)]))"
    unfolding len by (auto simp: vs_def)
  from 1 2 3 4 show ?thesis
    by (intro exI conjI)
qed

lemma ex_env_votes_simps:
  "contractAddress (ex_env_votes bs) = ''juno1proposalmodule''"
  "getTransformationMatches_voteCast (ex_env_votes bs) a n g l = None"
  "getMap_ballots (ex_env_votes bs) a [KStr ''ballots'', KNum (Finite 1)] = Some bs"
  "getDateKeyModified (ex_env_votes bs) a [KStr ''ballots'', KNum (Finite 1), KStr v] =
     (if v = ''junob'' then Some 2000 else Some 1000)"
  by (simp_all add: ex_env_votes_def ex_env_def)

lemma ex_votersPage_51: "length (votersPage ex_imports ex_ballots_51 None None) = 51"
  by (simp add: votersPage_def limitNum_def length_sort_by ex_ballots_51_def)

lemma ex_votersPage_2:
  "votersPage ex_imports [(''junob'', ''no''), (''junoa'', ''yes'')] None None = [''junoa'', ''junob'']"
  by (simp add: votersPage_def limitNum_def sort_by_def ex_imports_def)

text \<open>
  51 voters, each ballot with a date: no vote has \<open>votedAt\<close>. Two voters: both have it,
  in the order of the voters.
\<close>

theorem votedAt_cutoff_witness:
  "(\<exists>vs t. listVotes_compute ex_imports (ex_env_votes ex_ballots_51) (Some ''1'') None None = (Inr vs, t) \<and>
      length vs = 51 \<and> list_all (\<lambda>v. vi_votedAt v = None) vs) \<and>
   (\<exists>vs t. listVotes_compute ex_imports (ex_env_votes [(''junob'', ''no''), (''junoa'', ''yes'')])
              (Some ''1'') None None = (Inr vs, t) \<and>
      map vi_voter vs = [''junoa'', ''junob''] \<and>
      map vi_votedAt vs = [Some ''1970-01-01T00:00:01.000Z'', Some ''1970-01-01T00:00:02.000Z''])"
proof -
  have n: "Number ex_imports ''1'' = Finite 1"
    by (simp add: ex_imports_def ex_Number_def)
  have iso: "toISOString ex_imports 1000 = ''1970-01-01T00:00:01.000Z''"
    "toISOString ex_imports 2000 = ''1970-01-01T00:00:02.000Z''"
    by (simp_all add: ex_imports_def ex_toISOString_def)
  note T1 = votedAt_cutoff [OF ex_valid_arg_1, of "ex_env_votes ex_ballots_51" None None,
      unfolded n ex_env_votes_simps option.case]
  note T2 = votedAt_cutoff [OF ex_valid_arg_1,
      of "ex_env_votes [(''junob'', ''no''), (''junoa'', ''yes'')]" None None,
      unfolded n ex_env_votes_simps option.case]
  obtain vs t where a: "listVotes_compute ex_imports (ex_env_votes ex_ballots_51) (Some ''1'') None None = (Inr vs, t)"
    "map vi_voter vs = votersPage ex_imports ex_ballots_51 None None"
    "50 < length vs \<longrightarrow> (\<forall>v\<in>set vs. vi_votedAt v = None)"
    using T1 by auto
  from a(2) have "length vs = 51"
    using ex_votersPage_51 by (metis length_map)
  moreover from this a(3) have "list_all (\<lambda>v. vi_votedAt v = None) vs"
    by (simp add: list_all_iff)
  ultimately have W1: "\<exists>vs t. listVotes_compute ex_imports (ex_env_votes ex_ballots_51) (Some ''1'') None None = (Inr vs, t) \<and>
      length vs = 51 \<and> list_all (\<lambda>v. vi_votedAt v = None) vs"
    using a(1) by blast
  obtain ws u where b: "listVotes_compute ex_imports (ex_env_votes [(''junob'', ''no''), (''junoa'', ''yes'')])
              (Some ''1'') None None = (Inr ws, u)"
    "map vi_voter ws = [''junoa'', ''junob'']"
    "length ws \<le> 50 \<longrightarrow>
       (\<forall>v\<in>set ws. vi_votedAt v =
          map_option (toISOString ex_imports) (if vi_voter v = ''junob'' then Some 2000 else Some 1000))"
    using T2 unfolding ex_votersPage_2 by auto
  from b(2) obtain x y where xy: "ws = [x, y]" "vi_voter x = ''junoa''" "vi_voter y = ''junob''"
    by auto
  with b(3) have v: "map vi_votedAt ws = [Some ''1970-01-01T00:00:01.000Z'', Some ''1970-01-01T00:00:02.000Z'']"
    by (simp add: iso)
  from b(1) b(2) v have W2: "\<exists>vs t. listVotes_compute ex_imports (ex_env_votes [(''junob'', ''no''), (''junoa'', ''yes'')])
              (Some ''1'') None None = (Inr vs, t) \<and>
      map vi_voter vs = [''junoa'', ''junob''] \<and>
      map vi_votedAt vs = [Some ''1970-01-01T00:00:01.000Z'', Some ''1970-01-01T00:00:02.000Z'']"
    by (intro exI conjI)
  from W1 W2 show ?thesis
    by (rule conjI)
qed

section \<open>Valid arguments\<close>

text \<open>
  With an id that passes the check, the single-proposal formula and the vote listing
  raise no error. For the single-proposal formula the id must still pass the check once
  converted back with \<open>toString\<close>, as it does with the built-ins of JavaScript.
\<close>

lemma proposal_valid_returns:
  assumes "\<not> invalid_id imp (Some s)"
    and "\<not> invalid_id imp (Some (toString imp (Number imp s)))"
  shows "\<exists>r. fst (proposal_compute imp env (Some s)) = Inr r"
proof -
  obtain found v2 where f: "fst (resolveProposal imp env s) = Inr (found, v2)"
    by (cases "fst (resolveProposal imp env s)")
      (auto simp: resolveProposal_eq split: option.splits)
  show ?thesis
  proof (cases found)
    case None
    with f assms(1) show ?thesis
      by (simp add: proposal_compute_def fst_await fst_resolve)
  next
    case (Some p)
    obtain r t where "intoResponse imp env p (Number imp s) v2 = (Inr r, t)"
      using intoResponse_returns [OF assms(2)] by blast
    with Some f assms(1) show ?thesis
      by (simp add: proposal_compute_def fst_await fst_resolve)
  qed
qed

lemma listVotes_valid_returns:
  assumes "\<not> invalid_id imp (Some s)"
  shows "\<exists>r. fst (listVotes_compute imp env (Some s) limit startAfter) = Inr r"
  using assms
  by (simp add: listVotes_compute_def fst_await fst_call fst_resolve fst_votesFromBallots
      split: option.splits)

end
